theory Spec2Isabelle
  imports Main "HOL-Library.Word"
begin

unbundle bit_operations_syntax

section \<open>Data model\<close>

type_synonym u8 = "8 word"
type_synonym u16 = "16 word"

text \<open>
  A \<open>uint8_t *\<close> is modelled by the bytes found at the pointer, indexed by offset:
  \<open>p i\<close> is \<open>p[i]\<close>, and \<open>p + k\<close> is \<open>ptr_add p k\<close>.
\<close>

type_synonym bytes_at = "nat \<Rightarrow> u8"

definition ptr_add :: "bytes_at \<Rightarrow> nat \<Rightarrow> bytes_at" where
  "ptr_add p k = (\<lambda>i. p (i + k))"

text \<open>Writing the bytes \<open>bs\<close> at offset \<open>k\<close> of a buffer.\<close>

definition store_at :: "bytes_at \<Rightarrow> nat \<Rightarrow> u8 list \<Rightarrow> bytes_at" where
  "store_at p k bs = (\<lambda>i. if k \<le> i \<and> i < k + length bs then bs ! (i - k) else p i)"

text \<open>The first \<open>n\<close> bytes at a pointer, as \<open>memcpy\<close> reads them.\<close>

definition bytes_of :: "bytes_at \<Rightarrow> nat \<Rightarrow> u8 list" where
  "bytes_of p n = map p [0..<n]"

text \<open>A buffer that holds the bytes \<open>bs\<close>, followed by zeros.\<close>

definition buf_of :: "u8 list \<Rightarrow> bytes_at" where
  "buf_of bs = (\<lambda>i. if i < length bs then bs ! i else 0)"

subsection \<open>Byte codec\<close>

text \<open>
  Modelled from the spec: the byte codec (\<open>modbus_cvt_u8_put\<close>, \<open>modbus_cvt_u16_put\<close>,
  \<open>modbus_cvt_u16_get\<close>, \<open>modbus_bitmap_set\<close>, \<open>modbus_bitmap_get\<close>) is not among the
  sources. Section 4.1: big-endian put and get for u16; bit index \<open>i\<close> lives at byte
  \<open>i div 8\<close>, bit position \<open>i mod 8\<close> counting from the least significant bit.
  The put functions return the bytes they produce, the get function the value read
  at the pointer; the pointer advance (1 or 2) is written at each call site.
\<close>

definition modbus_cvt_u8_put :: "u8 \<Rightarrow> u8 list" where
  "modbus_cvt_u8_put v = [v]"

definition modbus_cvt_u16_put :: "u16 \<Rightarrow> u8 list" where
  "modbus_cvt_u16_put v = [ucast (drop_bit 8 v), ucast v]"

definition modbus_cvt_u16_get :: "bytes_at \<Rightarrow> u16" where
  "modbus_cvt_u16_get p = push_bit 8 (ucast (p 0)) OR ucast (p 1)"

text \<open>
  The loop \<open>for (i = 0; i < n; i++) p += modbus_cvt_u16_get(p, pregs + i)\<close> that decodes
  \<open>n\<close> registers from the bytes at \<open>p\<close>.
\<close>

definition regs_of :: "bytes_at \<Rightarrow> nat \<Rightarrow> u16 list" where
  "regs_of p n = map (\<lambda>i. modbus_cvt_u16_get (ptr_add p (2 * i))) [0..<n]"

definition modbus_bitmap_get :: "bytes_at \<Rightarrow> nat \<Rightarrow> u8" where
  "modbus_bitmap_get p i = (if bit (p (i div 8)) (i mod 8) then 1 else 0)"

definition modbus_bitmap_set :: "bytes_at \<Rightarrow> nat \<Rightarrow> u8 \<Rightarrow> bytes_at" where
  "modbus_bitmap_set p i b =
     p (i div 8 := (if b \<noteq> 0 then set_bit (i mod 8) (p (i div 8))
                    else unset_bit (i mod 8) (p (i div 8))))"

subsection \<open>Function codes and exception codes\<close>

text \<open>
  Modelled from the spec: the header that defines the function codes, the exception
  codes and the two exception macros is not among the sources. Section 3 lists the
  codes; setting the high bit (\<open>fc | 0x80\<close>) marks an exception response.
\<close>

definition MODBUS_FC_READ_COILS :: u8 where "MODBUS_FC_READ_COILS = 0x01"
definition MODBUS_FC_READ_DISCRETE_INPUTS :: u8 where "MODBUS_FC_READ_DISCRETE_INPUTS = 0x02"
definition MODBUS_FC_READ_HOLDING_REGISTERS :: u8 where "MODBUS_FC_READ_HOLDING_REGISTERS = 0x03"
definition MODBUS_FC_READ_INPUT_REGISTERS :: u8 where "MODBUS_FC_READ_INPUT_REGISTERS = 0x04"
definition MODBUS_FC_WRITE_SINGLE_COIL :: u8 where "MODBUS_FC_WRITE_SINGLE_COIL = 0x05"
definition MODBUS_FC_WRITE_SINGLE_REGISTER :: u8 where "MODBUS_FC_WRITE_SINGLE_REGISTER = 0x06"
definition MODBUS_FC_READ_EXCEPTION_STATUS :: u8 where "MODBUS_FC_READ_EXCEPTION_STATUS = 0x07"
definition MODBUS_FC_WRITE_MULTIPLE_COILS :: u8 where "MODBUS_FC_WRITE_MULTIPLE_COILS = 0x0F"
definition MODBUS_FC_WRITE_MULTIPLE_REGISTERS :: u8 where "MODBUS_FC_WRITE_MULTIPLE_REGISTERS = 0x10"
definition MODBUS_FC_REPORT_SLAVE_ID :: u8 where "MODBUS_FC_REPORT_SLAVE_ID = 0x11"
definition MODBUS_FC_MASK_WRITE_REGISTER :: u8 where "MODBUS_FC_MASK_WRITE_REGISTER = 0x16"
definition MODBUS_FC_WRITE_AND_READ_REGISTERS :: u8 where "MODBUS_FC_WRITE_AND_READ_REGISTERS = 0x17"

definition MODBUS_EC_ILLEGAL_FUNCTION :: u8 where "MODBUS_EC_ILLEGAL_FUNCTION = 0x01"
definition MODBUS_EC_ILLEGAL_DATA_ADDRESS :: u8 where "MODBUS_EC_ILLEGAL_DATA_ADDRESS = 0x02"
definition MODBUS_EC_ILLEGAL_DATA_VALUE :: u8 where "MODBUS_EC_ILLEGAL_DATA_VALUE = 0x03"
definition MODBUS_EC_SLAVE_OR_SERVER_FAILURE :: u8 where "MODBUS_EC_SLAVE_OR_SERVER_FAILURE = 0x04"

definition MODBUS_FC_EXCEPT_MAKE :: "u8 \<Rightarrow> u8" where
  "MODBUS_FC_EXCEPT_MAKE c = c OR 0x80"

definition MODBUS_FC_EXCEPT_CHK :: "u8 \<Rightarrow> bool" where
  "MODBUS_FC_EXCEPT_CHK c = (c AND 0x80 \<noteq> 0)"

subsection \<open>The PDU\<close>

text \<open>
  Modelled from the spec: the declaration of \<open>mb_pdu_t\<close> is not among the sources. It is
  a union whose members all start with the function code, so \<open>pdu.fc\<close>, \<open>pdu.exc.fc\<close>,
  \<open>pdu.rd_req.fc\<close> and so on are one field, \<open>fc\<close>. The other fields of each member are
  kept apart here, one record field per \<open>member.field\<close> the sources mention, with the
  widths of section 3 (addresses, quantities and values u16; byte counts and the
  exception code u8). A member that the code has not written holds an arbitrary value,
  so nothing below relies on two members not overlapping.
\<close>

record mb_pdu =
  fc :: u8
  exc_ec :: u8
  rd_req_addr :: u16
  rd_req_nb :: u16
  rd_rsp_dlen :: u8
  rd_rsp_pdata :: bytes_at
  wr_single_addr :: u16
  wr_single_val :: u16
  wr_req_addr :: u16
  wr_req_nb :: u16
  wr_req_dlen :: u8
  wr_req_pdata :: bytes_at
  mask_wr_addr :: u16
  mask_wr_val_and :: u16
  mask_wr_val_or :: u16
  wr_rd_req_rd_addr :: u16
  wr_rd_req_rd_nb :: u16
  wr_rd_req_wr_addr :: u16
  wr_rd_req_wr_nb :: u16
  wr_rd_req_dlen :: u8
  wr_rd_req_pdata :: bytes_at

text \<open>
  The write-multiple response (fc, starting address, quantity) is the leading part of
  the write-multiple request, and the slave relies on it: its handlers leave the
  request in place as the response. So \<open>wr_rsp.addr\<close> and \<open>wr_rsp.nb\<close> are the fields
  \<open>wr_req.addr\<close> and \<open>wr_req.nb\<close>.
\<close>

abbreviation wr_rsp_addr :: "mb_pdu \<Rightarrow> u16" where
  "wr_rsp_addr \<equiv> wr_req_addr"

abbreviation wr_rsp_nb :: "mb_pdu \<Rightarrow> u16" where
  "wr_rsp_nb \<equiv> wr_req_nb"

datatype mb_pdu_type = MB_PDU_TYPE_REQ | MB_PDU_TYPE_RSP

datatype mb_prot = MB_PROT_RTU | MB_PROT_TCP

text \<open>The RTU frame (\<open>mb_rtu_frm_t\<close>: slave address and PDU) and the TCP frame of
  \<open>modbus_tcp.h\<close> (\<open>mb_tcp_mbap_t\<close>, \<open>mb_tcp_frm_t\<close>).\<close>

record mb_rtu_frm =
  rtu_saddr :: u8
  rtu_pdu :: mb_pdu

record mb_tcp_mbap =
  mbap_tid :: u16
  mbap_pid :: u16
  mbap_dlen :: u16
  mbap_did :: u8

record mb_tcp_frm =
  mbap :: mb_tcp_mbap
  tcp_pdu :: mb_pdu

text \<open>
  Modelled from the spec: the declaration of \<open>mb_inst_t\<close> is not among the sources.
  These are the fields the sources use: the protocol \<open>prototype\<close>, the slave address
  \<open>saddr\<close>, the transaction counter \<open>tsid\<close> (u16, section 3), the field \<open>tid\<close> that the
  MBAP check of the master reads (no function of the sources writes it) and the scratch buffer \<open>datas\<close>. The frame buffer \<open>buf\<close> is written before it is
  read in every function, so it is not part of the state.
\<close>

record mb_inst =
  prototype :: mb_prot
  saddr :: u8
  tsid :: u16
  tid :: u16
  datas :: bytes_at

subsection \<open>Build options and absent functions\<close>

text \<open>
  The conditional compilation switches of the sources: \<open>MB_USING_ADDR_CHK\<close>,
  \<open>MB_USING_MBAP_CHK\<close>, \<open>MB_USING_RTU_PROTOCOL\<close>, \<open>MB_USING_TCP_PROTOCOL\<close>.
\<close>

record mb_cfg =
  MB_USING_ADDR_CHK :: bool
  MB_USING_MBAP_CHK :: bool
  MB_USING_RTU_PROTOCOL :: bool
  MB_USING_TCP_PROTOCOL :: bool

text \<open>
  The PDU codec, the RTU frame codec and the constant \<open>MB_PDU_SIZE_MIN\<close> are used by
  the sources but defined in files that are not among them. They are parameters of the
  model: a make function returns the bytes it writes into the buffer (its C result is
  their number); a parse function gets the buffer, the length and the frame or PDU
  variable it fills, and returns its \<open>int\<close> result with the variable as it leaves it.
\<close>

record mb_ext =
  MB_PDU_SIZE_MIN :: int
  modbus_pdu_make :: "mb_pdu \<Rightarrow> mb_pdu_type \<Rightarrow> u8 list"
  modbus_pdu_parse :: "bytes_at \<Rightarrow> int \<Rightarrow> mb_pdu \<Rightarrow> mb_pdu_type \<Rightarrow> int \<times> mb_pdu"
  modbus_rtu_frame_make :: "mb_rtu_frm \<Rightarrow> mb_pdu_type \<Rightarrow> u8 list"
  modbus_rtu_frame_parse ::
    "bytes_at \<Rightarrow> int \<Rightarrow> mb_rtu_frm \<Rightarrow> mb_pdu_type \<Rightarrow> int \<times> mb_rtu_frm"

section \<open>Slave: callbacks and request handlers\<close>

text \<open>
  The callback table of \<open>modbus_slave.c\<close>. A callback works on the device state \<open>'s\<close>
  behind the slave; it returns its \<open>int\<close> result, the value it stored through its
  pointer argument (for the read callbacks), and the device state it leaves. A table
  entry may be \<open>NULL\<close> (\<open>None\<close>).
\<close>

record 's mb_cb_table =
  read_disc :: "(u16 \<Rightarrow> 's \<Rightarrow> int \<times> u8 \<times> 's) option"
  read_coil :: "(u16 \<Rightarrow> 's \<Rightarrow> int \<times> u8 \<times> 's) option"
  write_coil :: "(u16 \<Rightarrow> u8 \<Rightarrow> 's \<Rightarrow> int \<times> 's) option"
  read_input :: "(u16 \<Rightarrow> 's \<Rightarrow> int \<times> u16 \<times> 's) option"
  read_hold :: "(u16 \<Rightarrow> 's \<Rightarrow> int \<times> u16 \<times> 's) option"
  write_hold :: "(u16 \<Rightarrow> u16 \<Rightarrow> 's \<Rightarrow> int \<times> 's) option"

text \<open>
  Every call of a callback is recorded, in order: the address it was given, the value
  it was given (write callbacks) or stored through its pointer (read callbacks), and
  the \<open>int\<close> it returned.
\<close>

datatype cb_event =
    Ev_read_disc (ev_addr: u16) (ev_bit: u8) (ev_rst: int)
  | Ev_read_coil (ev_addr: u16) (ev_bit: u8) (ev_rst: int)
  | Ev_write_coil (ev_addr: u16) (ev_bit: u8) (ev_rst: int)
  | Ev_read_input (ev_addr: u16) (ev_reg: u16) (ev_rst: int)
  | Ev_read_hold (ev_addr: u16) (ev_reg: u16) (ev_rst: int)
  | Ev_write_hold (ev_addr: u16) (ev_reg: u16) (ev_rst: int)

text \<open>
  The slave instance with what it acts on: the instance fields, its callback table
  \<open>cb\<close>, the device state behind the callbacks, the record of callback calls, and the
  frames handed to \<open>modbus_send\<close>.
\<close>

record 's mb_slave = mb_inst +
  cb :: "'s mb_cb_table option"
  dev :: 's
  cb_log :: "cb_event list"
  sent :: "u8 list list"

definition call_rd8 ::
  "(u16 \<Rightarrow> u8 \<Rightarrow> int \<Rightarrow> cb_event) \<Rightarrow> (u16 \<Rightarrow> 's \<Rightarrow> int \<times> u8 \<times> 's) \<Rightarrow> u16 \<Rightarrow> 's mb_slave
     \<Rightarrow> int \<times> u8 \<times> 's mb_slave" where
  "call_rd8 ev f a hinst =
     (case f a (dev hinst) of
        (rst, v, d) \<Rightarrow> (rst, v, hinst\<lparr>dev := d, cb_log := cb_log hinst @ [ev a v rst]\<rparr>))"

definition call_rd16 ::
  "(u16 \<Rightarrow> u16 \<Rightarrow> int \<Rightarrow> cb_event) \<Rightarrow> (u16 \<Rightarrow> 's \<Rightarrow> int \<times> u16 \<times> 's) \<Rightarrow> u16 \<Rightarrow> 's mb_slave
     \<Rightarrow> int \<times> u16 \<times> 's mb_slave" where
  "call_rd16 ev f a hinst =
     (case f a (dev hinst) of
        (rst, v, d) \<Rightarrow> (rst, v, hinst\<lparr>dev := d, cb_log := cb_log hinst @ [ev a v rst]\<rparr>))"

definition call_write_coil ::
  "(u16 \<Rightarrow> u8 \<Rightarrow> 's \<Rightarrow> int \<times> 's) \<Rightarrow> u16 \<Rightarrow> u8 \<Rightarrow> 's mb_slave \<Rightarrow> int \<times> 's mb_slave" where
  "call_write_coil f a b hinst =
     (case f a b (dev hinst) of
        (rst, d) \<Rightarrow> (rst, hinst\<lparr>dev := d, cb_log := cb_log hinst @ [Ev_write_coil a b rst]\<rparr>))"

definition call_write_hold ::
  "(u16 \<Rightarrow> u16 \<Rightarrow> 's \<Rightarrow> int \<times> 's) \<Rightarrow> u16 \<Rightarrow> u16 \<Rightarrow> 's mb_slave \<Rightarrow> int \<times> 's mb_slave" where
  "call_write_hold f a v hinst =
     (case f a v (dev hinst) of
        (rst, d) \<Rightarrow> (rst, hinst\<lparr>dev := d, cb_log := cb_log hinst @ [Ev_write_hold a v rst]\<rparr>))"

text \<open>
  The two statements \<open>pdu->exc.ec = e; pdu->exc.fc = MODBUS_FC_EXCEPT_MAKE(pdu->exc.fc);\<close>
  that every handler uses to turn the PDU into an exception response.
\<close>

definition pdu_exc :: "u8 \<Rightarrow> mb_pdu \<Rightarrow> mb_pdu" where
  "pdu_exc e pdu = pdu\<lparr>exc_ec := e, fc := MODBUS_FC_EXCEPT_MAKE (fc pdu)\<rparr>"

text \<open>\<open>pdu->exc.ec = -rst\<close>: the negated \<open>int\<close> stored into a byte.\<close>

definition ec_of_rst :: "int \<Rightarrow> u8" where
  "ec_of_rst rst = word_of_int (- rst)"

subsection \<open>0x05 write single coil\<close>

definition modbus_slave_pdu_deal_write_coil ::
  "'s mb_slave \<Rightarrow> mb_pdu \<Rightarrow> 's mb_slave \<times> mb_pdu" where
  "modbus_slave_pdu_deal_write_coil hinst pdu =
     (case cb hinst of
        None \<Rightarrow> (hinst, pdu_exc MODBUS_EC_SLAVE_OR_SERVER_FAILURE pdu)
      | Some t \<Rightarrow>
         (case write_coil t of
            None \<Rightarrow> (hinst, pdu_exc MODBUS_EC_SLAVE_OR_SERVER_FAILURE pdu)
          | Some wc \<Rightarrow>
             (let addr = wr_single_addr pdu;
                  val = wr_single_val pdu
              in if val \<noteq> 0xFF00 \<and> val \<noteq> 0x0000
                 then (hinst, pdu_exc MODBUS_EC_ILLEGAL_DATA_VALUE pdu)
                 else
                   (case call_write_coil wc addr (if val \<noteq> 0 then 1 else 0) hinst of
                      (rst, hinst1) \<Rightarrow>
                        if rst < 0 then (hinst1, pdu_exc (ec_of_rst rst) pdu)
                        else (hinst1, pdu)))))"

subsection \<open>0x16 mask write register\<close>

definition modbus_slave_pdu_deal_mask_write_reg ::
  "'s mb_slave \<Rightarrow> mb_pdu \<Rightarrow> 's mb_slave \<times> mb_pdu" where
  "modbus_slave_pdu_deal_mask_write_reg hinst pdu =
     (case cb hinst of
        None \<Rightarrow> (hinst, pdu_exc MODBUS_EC_SLAVE_OR_SERVER_FAILURE pdu)
      | Some t \<Rightarrow>
         (case (read_hold t, write_hold t) of
            (Some rh, Some wh) \<Rightarrow>
              (let addr = mask_wr_addr pdu;
                   val_and = mask_wr_val_and pdu;
                   val_or = mask_wr_val_or pdu
               in case call_rd16 Ev_read_hold rh addr hinst of
                    (rst, val, hinst1) \<Rightarrow>
                      if rst < 0 then (hinst1, pdu_exc (ec_of_rst rst) pdu)
                      else
                        (let val1 = (val AND val_and) OR (val_or AND NOT val_and)
                         in case call_write_hold wh addr val1 hinst1 of
                              (rst1, hinst2) \<Rightarrow>
                                if rst1 < 0 then (hinst2, pdu_exc (ec_of_rst rst1) pdu)
                                else (hinst2, pdu)))
          | _ \<Rightarrow> (hinst, pdu_exc MODBUS_EC_SLAVE_OR_SERVER_FAILURE pdu)))"

subsection \<open>The read handlers: 0x01, 0x02, 0x03, 0x04\<close>

text \<open>
  The loops \<open>for (int i=0; i<nb; i++)\<close> of the handlers: \<open>i\<close> is the loop index and the
  second number counts the iterations left. The result is \<open>Some rst\<close> when a callback
  returned \<open>rst < 0\<close> and the handler left the loop, \<open>None\<close> when the loop ran to its
  end. The callback gets \<open>addr + i\<close> converted to \<open>uint16_t\<close>.
\<close>

fun read_bits_loop ::
  "(u16 \<Rightarrow> u8 \<Rightarrow> int \<Rightarrow> cb_event) \<Rightarrow> (u16 \<Rightarrow> 's \<Rightarrow> int \<times> u8 \<times> 's) \<Rightarrow> u16 \<Rightarrow> nat \<Rightarrow> nat
     \<Rightarrow> 's mb_slave \<Rightarrow> int option \<times> 's mb_slave" where
  "read_bits_loop ev f addr i 0 hinst = (None, hinst)"
| "read_bits_loop ev f addr i (Suc k) hinst =
     (case call_rd8 ev f (addr + of_nat i) hinst of
        (rst, b, hinst1) \<Rightarrow>
          if rst < 0 then (Some rst, hinst1)
          else read_bits_loop ev f addr (Suc i) k
                 (hinst1\<lparr>datas := modbus_bitmap_set (datas hinst1) i b\<rparr>))"

fun read_regs_loop ::
  "(u16 \<Rightarrow> u16 \<Rightarrow> int \<Rightarrow> cb_event) \<Rightarrow> (u16 \<Rightarrow> 's \<Rightarrow> int \<times> u16 \<times> 's) \<Rightarrow> u16 \<Rightarrow> nat \<Rightarrow> nat
     \<Rightarrow> 's mb_slave \<Rightarrow> int option \<times> 's mb_slave" where
  "read_regs_loop ev f addr i 0 hinst = (None, hinst)"
| "read_regs_loop ev f addr i (Suc k) hinst =
     (case call_rd16 ev f (addr + of_nat i) hinst of
        (rst, val, hinst1) \<Rightarrow>
          if rst < 0 then (Some rst, hinst1)
          else read_regs_loop ev f addr (Suc i) k
                 (hinst1\<lparr>datas := store_at (datas hinst1) (2 * i) (modbus_cvt_u16_put val)\<rparr>))"

definition modbus_slave_pdu_deal_read_coils ::
  "'s mb_slave \<Rightarrow> mb_pdu \<Rightarrow> 's mb_slave \<times> mb_pdu" where
  "modbus_slave_pdu_deal_read_coils hinst pdu =
     (case cb hinst of
        None \<Rightarrow> (hinst, pdu_exc MODBUS_EC_SLAVE_OR_SERVER_FAILURE pdu)
      | Some t \<Rightarrow>
         (case read_coil t of
            None \<Rightarrow> (hinst, pdu_exc MODBUS_EC_SLAVE_OR_SERVER_FAILURE pdu)
          | Some rc \<Rightarrow>
             (let addr = rd_req_addr pdu;
                  nb = unat (rd_req_nb pdu)
              in case read_bits_loop Ev_read_coil rc addr 0 nb (hinst\<lparr>datas := (\<lambda>i. 0)\<rparr>) of
                   (Some rst, hinst1) \<Rightarrow> (hinst1, pdu_exc (ec_of_rst rst) pdu)
                 | (None, hinst1) \<Rightarrow>
                     (hinst1, pdu\<lparr>rd_rsp_dlen := of_nat ((nb + 7) div 8),
                                   rd_rsp_pdata := datas hinst1\<rparr>))))"

definition modbus_slave_pdu_deal_read_discs ::
  "'s mb_slave \<Rightarrow> mb_pdu \<Rightarrow> 's mb_slave \<times> mb_pdu" where
  "modbus_slave_pdu_deal_read_discs hinst pdu =
     (case cb hinst of
        None \<Rightarrow> (hinst, pdu_exc MODBUS_EC_SLAVE_OR_SERVER_FAILURE pdu)
      | Some t \<Rightarrow>
         (case read_disc t of
            None \<Rightarrow> (hinst, pdu_exc MODBUS_EC_SLAVE_OR_SERVER_FAILURE pdu)
          | Some rd \<Rightarrow>
             (let addr = rd_req_addr pdu;
                  nb = unat (rd_req_nb pdu)
              in case read_bits_loop Ev_read_disc rd addr 0 nb (hinst\<lparr>datas := (\<lambda>i. 0)\<rparr>) of
                   (Some rst, hinst1) \<Rightarrow> (hinst1, pdu_exc (ec_of_rst rst) pdu)
                 | (None, hinst1) \<Rightarrow>
                     (hinst1, pdu\<lparr>rd_rsp_dlen := of_nat ((nb + 7) div 8),
                                   rd_rsp_pdata := datas hinst1\<rparr>))))"

definition modbus_slave_pdu_deal_read_holds ::
  "'s mb_slave \<Rightarrow> mb_pdu \<Rightarrow> 's mb_slave \<times> mb_pdu" where
  "modbus_slave_pdu_deal_read_holds hinst pdu =
     (case cb hinst of
        None \<Rightarrow> (hinst, pdu_exc MODBUS_EC_SLAVE_OR_SERVER_FAILURE pdu)
      | Some t \<Rightarrow>
         (case read_hold t of
            None \<Rightarrow> (hinst, pdu_exc MODBUS_EC_SLAVE_OR_SERVER_FAILURE pdu)
          | Some rh \<Rightarrow>
             (let addr = rd_req_addr pdu;
                  nb = unat (rd_req_nb pdu)
              in case read_regs_loop Ev_read_hold rh addr 0 nb hinst of
                   (Some rst, hinst1) \<Rightarrow> (hinst1, pdu_exc (ec_of_rst rst) pdu)
                 | (None, hinst1) \<Rightarrow>
                     (hinst1, pdu\<lparr>rd_rsp_dlen := of_nat (2 * nb),
                                   rd_rsp_pdata := datas hinst1\<rparr>))))"

definition modbus_slave_pdu_deal_read_inputs ::
  "'s mb_slave \<Rightarrow> mb_pdu \<Rightarrow> 's mb_slave \<times> mb_pdu" where
  "modbus_slave_pdu_deal_read_inputs hinst pdu =
     (case cb hinst of
        None \<Rightarrow> (hinst, pdu_exc MODBUS_EC_SLAVE_OR_SERVER_FAILURE pdu)
      | Some t \<Rightarrow>
         (case read_input t of
            None \<Rightarrow> (hinst, pdu_exc MODBUS_EC_SLAVE_OR_SERVER_FAILURE pdu)
          | Some ri \<Rightarrow>
             (let addr = rd_req_addr pdu;
                  nb = unat (rd_req_nb pdu)
              in case read_regs_loop Ev_read_input ri addr 0 nb hinst of
                   (Some rst, hinst1) \<Rightarrow> (hinst1, pdu_exc (ec_of_rst rst) pdu)
                 | (None, hinst1) \<Rightarrow>
                     (hinst1, pdu\<lparr>rd_rsp_dlen := of_nat (2 * nb),
                                   rd_rsp_pdata := datas hinst1\<rparr>))))"

subsection \<open>0x06 write single register\<close>

definition modbus_slave_pdu_deal_write_reg ::
  "'s mb_slave \<Rightarrow> mb_pdu \<Rightarrow> 's mb_slave \<times> mb_pdu" where
  "modbus_slave_pdu_deal_write_reg hinst pdu =
     (case cb hinst of
        None \<Rightarrow> (hinst, pdu_exc MODBUS_EC_SLAVE_OR_SERVER_FAILURE pdu)
      | Some t \<Rightarrow>
         (case write_hold t of
            None \<Rightarrow> (hinst, pdu_exc MODBUS_EC_SLAVE_OR_SERVER_FAILURE pdu)
          | Some wh \<Rightarrow>
             (let addr = wr_single_addr pdu;
                  val = wr_single_val pdu
              in case call_write_hold wh addr val hinst of
                   (rst, hinst1) \<Rightarrow>
                     if rst < 0 then (hinst1, pdu_exc (ec_of_rst rst) pdu)
                     else (hinst1, pdu))))"

subsection \<open>The write-multiple handlers: 0x0F, 0x10\<close>

fun write_bits_loop ::
  "(u16 \<Rightarrow> u8 \<Rightarrow> 's \<Rightarrow> int \<times> 's) \<Rightarrow> u16 \<Rightarrow> bytes_at \<Rightarrow> nat \<Rightarrow> nat
     \<Rightarrow> 's mb_slave \<Rightarrow> int option \<times> 's mb_slave" where
  "write_bits_loop f addr pbits i 0 hinst = (None, hinst)"
| "write_bits_loop f addr pbits i (Suc k) hinst =
     (let b = modbus_bitmap_get pbits i
      in case call_write_coil f (addr + of_nat i) b hinst of
           (rst, hinst1) \<Rightarrow>
             if rst < 0 then (Some rst, hinst1)
             else write_bits_loop f addr pbits (Suc i) k hinst1)"

fun write_regs_loop ::
  "(u16 \<Rightarrow> u16 \<Rightarrow> 's \<Rightarrow> int \<times> 's) \<Rightarrow> u16 \<Rightarrow> bytes_at \<Rightarrow> nat \<Rightarrow> nat
     \<Rightarrow> 's mb_slave \<Rightarrow> int option \<times> 's mb_slave" where
  "write_regs_loop f addr p i 0 hinst = (None, hinst)"
| "write_regs_loop f addr p i (Suc k) hinst =
     (let val = modbus_cvt_u16_get (ptr_add p (2 * i))
      in case call_write_hold f (addr + of_nat i) val hinst of
           (rst, hinst1) \<Rightarrow>
             if rst < 0 then (Some rst, hinst1)
             else write_regs_loop f addr p (Suc i) k hinst1)"

definition modbus_slave_pdu_deal_write_coils ::
  "'s mb_slave \<Rightarrow> mb_pdu \<Rightarrow> 's mb_slave \<times> mb_pdu" where
  "modbus_slave_pdu_deal_write_coils hinst pdu =
     (case cb hinst of
        None \<Rightarrow> (hinst, pdu_exc MODBUS_EC_SLAVE_OR_SERVER_FAILURE pdu)
      | Some t \<Rightarrow>
         (case write_coil t of
            None \<Rightarrow> (hinst, pdu_exc MODBUS_EC_SLAVE_OR_SERVER_FAILURE pdu)
          | Some wc \<Rightarrow>
             (let addr = wr_req_addr pdu;
                  nb = unat (wr_req_nb pdu);
                  pbits = wr_req_pdata pdu
              in case write_bits_loop wc addr pbits 0 nb hinst of
                   (Some rst, hinst1) \<Rightarrow> (hinst1, pdu_exc (ec_of_rst rst) pdu)
                 | (None, hinst1) \<Rightarrow> (hinst1, pdu))))"

definition modbus_slave_pdu_deal_write_regs ::
  "'s mb_slave \<Rightarrow> mb_pdu \<Rightarrow> 's mb_slave \<times> mb_pdu" where
  "modbus_slave_pdu_deal_write_regs hinst pdu =
     (case cb hinst of
        None \<Rightarrow> (hinst, pdu_exc MODBUS_EC_SLAVE_OR_SERVER_FAILURE pdu)
      | Some t \<Rightarrow>
         (case write_hold t of
            None \<Rightarrow> (hinst, pdu_exc MODBUS_EC_SLAVE_OR_SERVER_FAILURE pdu)
          | Some wh \<Rightarrow>
             (let addr = wr_req_addr pdu;
                  nb = unat (wr_req_nb pdu);
                  p = wr_req_pdata pdu
              in case write_regs_loop wh addr p 0 nb hinst of
                   (Some rst, hinst1) \<Rightarrow> (hinst1, pdu_exc (ec_of_rst rst) pdu)
                 | (None, hinst1) \<Rightarrow> (hinst1, pdu))))"

subsection \<open>0x17 write and read registers\<close>

definition modbus_slave_pdu_deal_write_and_read_regs ::
  "'s mb_slave \<Rightarrow> mb_pdu \<Rightarrow> 's mb_slave \<times> mb_pdu" where
  "modbus_slave_pdu_deal_write_and_read_regs hinst pdu =
     (case cb hinst of
        None \<Rightarrow> (hinst, pdu_exc MODBUS_EC_SLAVE_OR_SERVER_FAILURE pdu)
      | Some t \<Rightarrow>
         (case (read_hold t, write_hold t) of
            (Some rh, Some wh) \<Rightarrow>
              (let rd_addr = wr_rd_req_rd_addr pdu;
                   rd_nb = unat (wr_rd_req_rd_nb pdu);
                   wr_addr = wr_rd_req_wr_addr pdu;
                   wr_nb = unat (wr_rd_req_wr_nb pdu);
                   p = wr_rd_req_pdata pdu
               in case write_regs_loop wh wr_addr p 0 wr_nb hinst of
                    (Some rst, hinst1) \<Rightarrow> (hinst1, pdu_exc (ec_of_rst rst) pdu)
                  | (None, hinst1) \<Rightarrow>
                      (case read_regs_loop Ev_read_hold rh rd_addr 0 rd_nb hinst1 of
                         (Some rst, hinst2) \<Rightarrow> (hinst2, pdu_exc (ec_of_rst rst) pdu)
                       | (None, hinst2) \<Rightarrow>
                           (hinst2, pdu\<lparr>rd_rsp_dlen := of_nat (rd_nb * 2),
                                         rd_rsp_pdata := datas hinst2\<rparr>)))
          | _ \<Rightarrow> (hinst, pdu_exc MODBUS_EC_SLAVE_OR_SERVER_FAILURE pdu)))"

subsection \<open>Dispatch and the receive path\<close>

definition modbus_slave_pdu_deal :: "'s mb_slave \<Rightarrow> mb_pdu \<Rightarrow> 's mb_slave \<times> mb_pdu" where
  "modbus_slave_pdu_deal hinst pdu =
     (if fc pdu = MODBUS_FC_READ_COILS then modbus_slave_pdu_deal_read_coils hinst pdu
      else if fc pdu = MODBUS_FC_READ_DISCRETE_INPUTS then modbus_slave_pdu_deal_read_discs hinst pdu
      else if fc pdu = MODBUS_FC_READ_HOLDING_REGISTERS then modbus_slave_pdu_deal_read_holds hinst pdu
      else if fc pdu = MODBUS_FC_READ_INPUT_REGISTERS then modbus_slave_pdu_deal_read_inputs hinst pdu
      else if fc pdu = MODBUS_FC_WRITE_SINGLE_COIL then modbus_slave_pdu_deal_write_coil hinst pdu
      else if fc pdu = MODBUS_FC_WRITE_SINGLE_REGISTER then modbus_slave_pdu_deal_write_reg hinst pdu
      else if fc pdu = MODBUS_FC_READ_EXCEPTION_STATUS then (hinst, pdu)
      else if fc pdu = MODBUS_FC_WRITE_MULTIPLE_COILS then modbus_slave_pdu_deal_write_coils hinst pdu
      else if fc pdu = MODBUS_FC_WRITE_MULTIPLE_REGISTERS then modbus_slave_pdu_deal_write_regs hinst pdu
      else if fc pdu = MODBUS_FC_REPORT_SLAVE_ID then (hinst, pdu)
      else if fc pdu = MODBUS_FC_MASK_WRITE_REGISTER then modbus_slave_pdu_deal_mask_write_reg hinst pdu
      else if fc pdu = MODBUS_FC_WRITE_AND_READ_REGISTERS
        then modbus_slave_pdu_deal_write_and_read_regs hinst pdu
      else (hinst, pdu))"

text \<open>
  \<open>modbus_send\<close> is defined in a file that is not among the sources; the slave ignores
  its result. The model records the \<open>flen\<close> bytes it is given.
\<close>

definition slave_send :: "u8 list \<Rightarrow> 's mb_slave \<Rightarrow> 's mb_slave" where
  "slave_send frame hinst = hinst\<lparr>sent := sent hinst @ [frame]\<rparr>"

text \<open>
  \<open>modbus_slave_recv_deal_rtu\<close>. The local \<open>frm\<close> is not initialised in the source, so
  its contents before the parse, \<open>frm0\<close>, are an argument.
\<close>

definition modbus_slave_recv_deal_rtu ::
  "mb_cfg \<Rightarrow> mb_ext \<Rightarrow> mb_rtu_frm \<Rightarrow> 's mb_slave \<Rightarrow> bytes_at \<Rightarrow> int \<Rightarrow> 's mb_slave" where
  "modbus_slave_recv_deal_rtu cfg ext frm0 hinst buf len =
     (case modbus_rtu_frame_parse ext buf len frm0 MB_PDU_TYPE_REQ of
        (pdu_len, frm) \<Rightarrow>
          if pdu_len = 0 then hinst
          else if MB_USING_ADDR_CHK cfg \<and> rtu_saddr frm \<noteq> saddr hinst then hinst
          else
            (case (if pdu_len < 0
                   then (hinst, pdu_exc MODBUS_EC_ILLEGAL_FUNCTION (rtu_pdu frm))
                   else modbus_slave_pdu_deal hinst (rtu_pdu frm)) of
               (hinst1, pdu1) \<Rightarrow>
                 slave_send (modbus_rtu_frame_make ext (frm\<lparr>rtu_pdu := pdu1\<rparr>) MB_PDU_TYPE_RSP)
                   hinst1))"

section \<open>TCP frame codec (\<open>modbus_tcp.c\<close>)\<close>

definition MB_TCP_MBAP_SIZE :: int where "MB_TCP_MBAP_SIZE = 7"

definition MB_TCP_FRM_MIN :: "mb_ext \<Rightarrow> int" where
  "MB_TCP_FRM_MIN ext = MB_TCP_MBAP_SIZE + MB_PDU_SIZE_MIN ext"

definition MB_TCP_MBAP_PID :: u16 where "MB_TCP_MBAP_PID = 0x0000"

text \<open>
  \<open>modbus_tcp_frm_make\<close>: the PDU is made at \<open>buf + 7\<close>, then the seven header bytes are
  written. The result is the frame, whose length is the C result \<open>p - buf\<close>.
\<close>

definition modbus_tcp_frm_make :: "mb_ext \<Rightarrow> mb_tcp_frm \<Rightarrow> mb_pdu_type \<Rightarrow> u8 list" where
  "modbus_tcp_frm_make ext frm type =
     (let pdu_bytes = modbus_pdu_make ext (tcp_pdu frm) type;
          pdu_len = int (length pdu_bytes)
      in modbus_cvt_u16_put (mbap_tid (mbap frm)) @
         modbus_cvt_u16_put (mbap_pid (mbap frm)) @
         modbus_cvt_u16_put (word_of_int (pdu_len + 1)) @
         modbus_cvt_u8_put (mbap_did (mbap frm)) @
         pdu_bytes)"

definition modbus_tcp_frm_parse ::
  "mb_ext \<Rightarrow> bytes_at \<Rightarrow> int \<Rightarrow> mb_tcp_frm \<Rightarrow> mb_pdu_type \<Rightarrow> int \<times> mb_tcp_frm" where
  "modbus_tcp_frm_parse ext buf len frm type =
     (if len < MB_TCP_FRM_MIN ext then (0, frm)
      else
        (let hdr = \<lparr>mbap_tid = modbus_cvt_u16_get buf,
                    mbap_pid = modbus_cvt_u16_get (ptr_add buf 2),
                    mbap_dlen = modbus_cvt_u16_get (ptr_add buf 4),
                    mbap_did = buf 6\<rparr>;
             remain = len - 7
         in case modbus_pdu_parse ext (ptr_add buf 7) remain (tcp_pdu frm) type of
              (pdu_len, pdu1) \<Rightarrow>
                (let frm1 = frm\<lparr>mbap := hdr, tcp_pdu := pdu1\<rparr>
                 in if pdu_len \<le> 0 then (pdu_len, frm1)
                    else if remain < pdu_len then (0, frm1)
                    else (pdu_len, frm1))))"

section \<open>Master (\<open>modbus_master.c\<close>)\<close>

text \<open>
  What one master operation gets from outside. \<open>modbus_send\<close> and \<open>modbus_recv\<close> are
  defined in a file that is not among the sources: \<open>modbus_send env tx\<close> is the result
  of sending the frame \<open>tx\<close>, and \<open>modbus_recv env\<close> is the result \<open>rlen\<close> of the receive
  call with the contents of \<open>hinst->buf\<close> after it. The frame variables of the
  operations are locals that the source does not initialise; \<open>rtu_frm0\<close> and
  \<open>tcp_frm0\<close> are their contents on entry.
\<close>

record mb_env =
  modbus_send :: "u8 list \<Rightarrow> int"
  modbus_recv :: "int \<times> bytes_at"
  rtu_frm0 :: mb_rtu_frm
  tcp_frm0 :: mb_tcp_frm

text \<open>
  The outcome of an operation: the \<open>int\<close> it returns, the instance as it leaves it,
  the frame it handed to \<open>modbus_send\<close>, and what it stored through its output pointer.
\<close>

record 'a mb_result =
  ret :: int
  inst :: mb_inst
  tx :: "u8 list"
  out :: 'a

subsection \<open>Read request: 0x01 to 0x04\<close>

definition modbus_read_req_rtu ::
  "mb_cfg \<Rightarrow> mb_ext \<Rightarrow> mb_env \<Rightarrow> mb_inst \<Rightarrow> u8 \<Rightarrow> u16 \<Rightarrow> int \<Rightarrow> (u8 list) mb_result" where
  "modbus_read_req_rtu cfg ext env hinst func addr nb =
     (let frm = (rtu_frm0 env)
                  \<lparr>rtu_saddr := saddr hinst,
                   rtu_pdu := (rtu_pdu (rtu_frm0 env))\<lparr>fc := func, rd_req_addr := addr, rd_req_nb := word_of_int nb\<rparr>\<rparr>;
          tx = modbus_rtu_frame_make ext frm MB_PDU_TYPE_REQ;
          flen = int (length tx);
          slen = modbus_send env tx
      in if slen \<noteq> flen then \<lparr>ret = 0, inst = hinst, tx = tx, out = []\<rparr>
         else
           (case modbus_recv env of
              (rlen, buf) \<Rightarrow>
                if rlen \<le> 0 then \<lparr>ret = 0, inst = hinst, tx = tx, out = []\<rparr>
                else
                  (case modbus_rtu_frame_parse ext buf rlen frm MB_PDU_TYPE_RSP of
                     (pdu_len, frm1) \<Rightarrow>
                       if pdu_len \<le> 0 then \<lparr>ret = 0, inst = hinst, tx = tx, out = []\<rparr>
                       else if MB_USING_ADDR_CHK cfg \<and> rtu_saddr frm1 \<noteq> saddr hinst then \<lparr>ret = 0, inst = hinst, tx = tx, out = []\<rparr>
                       else if MODBUS_FC_EXCEPT_CHK (fc (rtu_pdu frm1))
                         then \<lparr>ret = - uint (exc_ec (rtu_pdu frm1)), inst = hinst, tx = tx, out = []\<rparr>
                       else (let dlen = unat (rd_rsp_dlen (rtu_pdu frm1))
                             in \<lparr>ret = int dlen, inst = hinst, tx = tx,
                                 out = bytes_of (rd_rsp_pdata (rtu_pdu frm1)) dlen\<rparr>))))"

definition modbus_read_req_tcp ::
  "mb_cfg \<Rightarrow> mb_ext \<Rightarrow> mb_env \<Rightarrow> mb_inst \<Rightarrow> u8 \<Rightarrow> u16 \<Rightarrow> int \<Rightarrow> (u8 list) mb_result" where
  "modbus_read_req_tcp cfg ext env hinst0 func addr nb =
     (let hinst = hinst0\<lparr>tsid := tsid hinst0 + 1\<rparr>;
          frm = (tcp_frm0 env)
                  \<lparr>mbap := (mbap (tcp_frm0 env))
                             \<lparr>mbap_tid := tsid hinst, mbap_pid := MB_TCP_MBAP_PID,
                              mbap_did := saddr hinst\<rparr>,
                   tcp_pdu := (tcp_pdu (tcp_frm0 env))\<lparr>fc := func, rd_req_addr := addr, rd_req_nb := word_of_int nb\<rparr>\<rparr>;
          tx = modbus_tcp_frm_make ext frm MB_PDU_TYPE_REQ;
          flen = int (length tx);
          slen = modbus_send env tx
      in if slen \<noteq> flen then \<lparr>ret = 0, inst = hinst, tx = tx, out = []\<rparr>
         else
           (case modbus_recv env of
              (rlen, buf) \<Rightarrow>
                if rlen \<le> 0 then \<lparr>ret = 0, inst = hinst, tx = tx, out = []\<rparr>
                else
                  (case modbus_tcp_frm_parse ext buf rlen frm MB_PDU_TYPE_RSP of
                     (pdu_len, frm1) \<Rightarrow>
                       if pdu_len < 0 then \<lparr>ret = 0, inst = hinst, tx = tx, out = []\<rparr>
                       else if MB_USING_ADDR_CHK cfg \<and> mbap_did (mbap frm1) \<noteq> saddr hinst then \<lparr>ret = 0, inst = hinst, tx = tx, out = []\<rparr>
                       else if MB_USING_MBAP_CHK cfg \<and>
                               (mbap_tid (mbap frm1) \<noteq> tid hinst \<or>
                                mbap_pid (mbap frm1) \<noteq> MB_TCP_MBAP_PID \<or>
                                uint (mbap_dlen (mbap frm1)) \<noteq> pdu_len + 1) then \<lparr>ret = 0, inst = hinst, tx = tx, out = []\<rparr>
                       else if MODBUS_FC_EXCEPT_CHK (fc (tcp_pdu frm1))
                         then \<lparr>ret = - uint (exc_ec (tcp_pdu frm1)), inst = hinst, tx = tx, out = []\<rparr>
                       else (let dlen = unat (rd_rsp_dlen (tcp_pdu frm1))
                             in \<lparr>ret = int dlen, inst = hinst, tx = tx,
                                 out = bytes_of (rd_rsp_pdata (tcp_pdu frm1)) dlen\<rparr>))))"

definition modbus_read_req ::
  "mb_cfg \<Rightarrow> mb_ext \<Rightarrow> mb_env \<Rightarrow> mb_inst \<Rightarrow> u8 \<Rightarrow> u16 \<Rightarrow> int \<Rightarrow> (u8 list) mb_result" where
  "modbus_read_req cfg ext env hinst func addr nb =
     (case prototype hinst of
        MB_PROT_RTU \<Rightarrow>
          if MB_USING_RTU_PROTOCOL cfg then modbus_read_req_rtu cfg ext env hinst func addr nb
          else \<lparr>ret = 0, inst = hinst, tx = [], out = []\<rparr>
      | MB_PROT_TCP \<Rightarrow>
          if MB_USING_TCP_PROTOCOL cfg then modbus_read_req_tcp cfg ext env hinst func addr nb
          else \<lparr>ret = 0, inst = hinst, tx = [], out = []\<rparr>)"

subsection \<open>Write multiple request: 0x0F, 0x10\<close>

definition modbus_write_req_rtu ::
  "mb_cfg \<Rightarrow> mb_ext \<Rightarrow> mb_env \<Rightarrow> mb_inst \<Rightarrow> u8 \<Rightarrow> u16 \<Rightarrow> int \<Rightarrow> bytes_at \<Rightarrow> int \<Rightarrow> (unit) mb_result" where
  "modbus_write_req_rtu cfg ext env hinst func addr nb pdata dlen =
     (let frm = (rtu_frm0 env)
                  \<lparr>rtu_saddr := saddr hinst,
                   rtu_pdu := (rtu_pdu (rtu_frm0 env))\<lparr>fc := func, wr_req_addr := addr, wr_req_nb := word_of_int nb,
                      wr_req_dlen := word_of_int dlen, wr_req_pdata := pdata\<rparr>\<rparr>;
          tx = modbus_rtu_frame_make ext frm MB_PDU_TYPE_REQ;
          flen = int (length tx);
          slen = modbus_send env tx
      in if slen \<noteq> flen then \<lparr>ret = 0, inst = hinst, tx = tx, out = ()\<rparr>
         else
           (case modbus_recv env of
              (rlen, buf) \<Rightarrow>
                if rlen \<le> 0 then \<lparr>ret = 0, inst = hinst, tx = tx, out = ()\<rparr>
                else
                  (case modbus_rtu_frame_parse ext buf rlen frm MB_PDU_TYPE_RSP of
                     (pdu_len, frm1) \<Rightarrow>
                       if pdu_len \<le> 0 then \<lparr>ret = 0, inst = hinst, tx = tx, out = ()\<rparr>
                       else if MB_USING_ADDR_CHK cfg \<and> rtu_saddr frm1 \<noteq> saddr hinst then \<lparr>ret = 0, inst = hinst, tx = tx, out = ()\<rparr>
                       else if MODBUS_FC_EXCEPT_CHK (fc (rtu_pdu frm1))
                         then \<lparr>ret = - uint (exc_ec (rtu_pdu frm1)), inst = hinst, tx = tx, out = ()\<rparr>
                       else \<lparr>ret = uint (wr_rsp_nb (rtu_pdu frm1)), inst = hinst, tx = tx, out = ()\<rparr>)))"

definition modbus_write_req_tcp ::
  "mb_cfg \<Rightarrow> mb_ext \<Rightarrow> mb_env \<Rightarrow> mb_inst \<Rightarrow> u8 \<Rightarrow> u16 \<Rightarrow> int \<Rightarrow> bytes_at \<Rightarrow> int \<Rightarrow> (unit) mb_result" where
  "modbus_write_req_tcp cfg ext env hinst0 func addr nb pdata dlen =
     (let hinst = hinst0\<lparr>tsid := tsid hinst0 + 1\<rparr>;
          frm = (tcp_frm0 env)
                  \<lparr>mbap := (mbap (tcp_frm0 env))
                             \<lparr>mbap_tid := tsid hinst, mbap_pid := MB_TCP_MBAP_PID,
                              mbap_did := saddr hinst\<rparr>,
                   tcp_pdu := (tcp_pdu (tcp_frm0 env))\<lparr>fc := func, wr_req_addr := addr, wr_req_nb := word_of_int nb,
                      wr_req_dlen := word_of_int dlen, wr_req_pdata := pdata\<rparr>\<rparr>;
          tx = modbus_tcp_frm_make ext frm MB_PDU_TYPE_REQ;
          flen = int (length tx);
          slen = modbus_send env tx
      in if slen \<noteq> flen then \<lparr>ret = 0, inst = hinst, tx = tx, out = ()\<rparr>
         else
           (case modbus_recv env of
              (rlen, buf) \<Rightarrow>
                if rlen \<le> 0 then \<lparr>ret = 0, inst = hinst, tx = tx, out = ()\<rparr>
                else
                  (case modbus_tcp_frm_parse ext buf rlen frm MB_PDU_TYPE_RSP of
                     (pdu_len, frm1) \<Rightarrow>
                       if pdu_len < 0 then \<lparr>ret = 0, inst = hinst, tx = tx, out = ()\<rparr>
                       else if MB_USING_ADDR_CHK cfg \<and> mbap_did (mbap frm1) \<noteq> saddr hinst then \<lparr>ret = 0, inst = hinst, tx = tx, out = ()\<rparr>
                       else if MB_USING_MBAP_CHK cfg \<and>
                               (mbap_tid (mbap frm1) \<noteq> tid hinst \<or>
                                mbap_pid (mbap frm1) \<noteq> MB_TCP_MBAP_PID \<or>
                                uint (mbap_dlen (mbap frm1)) \<noteq> pdu_len + 1) then \<lparr>ret = 0, inst = hinst, tx = tx, out = ()\<rparr>
                       else if MODBUS_FC_EXCEPT_CHK (fc (tcp_pdu frm1))
                         then \<lparr>ret = - uint (exc_ec (tcp_pdu frm1)), inst = hinst, tx = tx, out = ()\<rparr>
                       else \<lparr>ret = uint (wr_rsp_nb (tcp_pdu frm1)), inst = hinst, tx = tx, out = ()\<rparr>)))"

definition modbus_write_req ::
  "mb_cfg \<Rightarrow> mb_ext \<Rightarrow> mb_env \<Rightarrow> mb_inst \<Rightarrow> u8 \<Rightarrow> u16 \<Rightarrow> int \<Rightarrow> bytes_at \<Rightarrow> int
     \<Rightarrow> unit mb_result" where
  "modbus_write_req cfg ext env hinst func addr nb pdata dlen =
     (case prototype hinst of
        MB_PROT_RTU \<Rightarrow>
          if MB_USING_RTU_PROTOCOL cfg
          then modbus_write_req_rtu cfg ext env hinst func addr nb pdata dlen
          else \<lparr>ret = 0, inst = hinst, tx = [], out = ()\<rparr>
      | MB_PROT_TCP \<Rightarrow>
          if MB_USING_TCP_PROTOCOL cfg
          then modbus_write_req_tcp cfg ext env hinst func addr nb pdata dlen
          else \<lparr>ret = 0, inst = hinst, tx = [], out = ()\<rparr>)"

subsection \<open>The public read operations\<close>

text \<open>
  \<open>modbus_read_bits\<close> and \<open>modbus_read_input_bits\<close>. The C division \<open>(nb + 7) / 8\<close>
  truncates towards zero; the sources assert \<open>nb > 0\<close>, where it agrees with \<open>div\<close>.
\<close>

definition modbus_read_bits ::
  "mb_cfg \<Rightarrow> mb_ext \<Rightarrow> mb_env \<Rightarrow> mb_inst \<Rightarrow> u16 \<Rightarrow> int \<Rightarrow> (u8 list) mb_result" where
  "modbus_read_bits cfg ext env hinst addr nb =
     (let r = modbus_read_req cfg ext env hinst MODBUS_FC_READ_COILS addr nb;
          dlen = ret r
      in r\<lparr>ret := (if dlen \<noteq> (nb + 7) div 8 then dlen else nb)\<rparr>)"

definition modbus_read_input_bits ::
  "mb_cfg \<Rightarrow> mb_ext \<Rightarrow> mb_env \<Rightarrow> mb_inst \<Rightarrow> u16 \<Rightarrow> int \<Rightarrow> (u8 list) mb_result" where
  "modbus_read_input_bits cfg ext env hinst addr nb =
     (let r = modbus_read_req cfg ext env hinst MODBUS_FC_READ_DISCRETE_INPUTS addr nb;
          dlen = ret r
      in r\<lparr>ret := (if dlen \<noteq> (nb + 7) div 8 then dlen else nb)\<rparr>)"

text \<open>
  \<open>modbus_read_regs\<close> and \<open>modbus_read_input_regs\<close>: the request stores the payload in
  \<open>hinst->datas\<close>, from which \<open>nb\<close> registers are decoded.
\<close>

definition modbus_read_regs ::
  "mb_cfg \<Rightarrow> mb_ext \<Rightarrow> mb_env \<Rightarrow> mb_inst \<Rightarrow> u16 \<Rightarrow> int \<Rightarrow> (u16 list) mb_result" where
  "modbus_read_regs cfg ext env hinst addr nb =
     (let r = modbus_read_req cfg ext env hinst MODBUS_FC_READ_HOLDING_REGISTERS addr nb;
          hinst1 = (inst r)\<lparr>datas := store_at (datas (inst r)) 0 (out r)\<rparr>;
          dlen = ret r
      in if dlen \<le> 0 then \<lparr>ret = dlen, inst = hinst1, tx = tx r, out = []\<rparr>
         else if dlen \<noteq> nb * 2 then \<lparr>ret = 0, inst = hinst1, tx = tx r, out = []\<rparr>
         else \<lparr>ret = nb, inst = hinst1, tx = tx r,
               out = regs_of (datas hinst1) (nat nb)\<rparr>)"

definition modbus_read_input_regs ::
  "mb_cfg \<Rightarrow> mb_ext \<Rightarrow> mb_env \<Rightarrow> mb_inst \<Rightarrow> u16 \<Rightarrow> int \<Rightarrow> (u16 list) mb_result" where
  "modbus_read_input_regs cfg ext env hinst addr nb =
     (let r = modbus_read_req cfg ext env hinst MODBUS_FC_READ_INPUT_REGISTERS addr nb;
          hinst1 = (inst r)\<lparr>datas := store_at (datas (inst r)) 0 (out r)\<rparr>;
          dlen = ret r
      in if dlen \<le> 0 then \<lparr>ret = dlen, inst = hinst1, tx = tx r, out = []\<rparr>
         else if dlen \<noteq> nb * 2 then \<lparr>ret = 0, inst = hinst1, tx = tx r, out = []\<rparr>
         else \<lparr>ret = nb, inst = hinst1, tx = tx r,
               out = regs_of (datas hinst1) (nat nb)\<rparr>)"

subsection \<open>Write single: 0x05, 0x06\<close>

definition modbus_write_single_rtu ::
  "mb_cfg \<Rightarrow> mb_ext \<Rightarrow> mb_env \<Rightarrow> mb_inst \<Rightarrow> u8 \<Rightarrow> u16 \<Rightarrow> u16 \<Rightarrow> (unit) mb_result" where
  "modbus_write_single_rtu cfg ext env hinst func addr val =
     (let frm = (rtu_frm0 env)
                  \<lparr>rtu_saddr := saddr hinst,
                   rtu_pdu := (rtu_pdu (rtu_frm0 env))\<lparr>fc := func, wr_single_addr := addr, wr_single_val := val\<rparr>\<rparr>;
          tx = modbus_rtu_frame_make ext frm MB_PDU_TYPE_REQ;
          flen = int (length tx);
          slen = modbus_send env tx
      in if slen \<noteq> flen then \<lparr>ret = 0, inst = hinst, tx = tx, out = ()\<rparr>
         else
           (case modbus_recv env of
              (rlen, buf) \<Rightarrow>
                if rlen \<le> 0 then \<lparr>ret = 0, inst = hinst, tx = tx, out = ()\<rparr>
                else
                  (case modbus_rtu_frame_parse ext buf rlen frm MB_PDU_TYPE_RSP of
                     (pdu_len, frm1) \<Rightarrow>
                       if pdu_len \<le> 0 then \<lparr>ret = 0, inst = hinst, tx = tx, out = ()\<rparr>
                       else if MB_USING_ADDR_CHK cfg \<and> rtu_saddr frm1 \<noteq> saddr hinst then \<lparr>ret = 0, inst = hinst, tx = tx, out = ()\<rparr>
                       else if MODBUS_FC_EXCEPT_CHK (fc (rtu_pdu frm1))
                         then \<lparr>ret = - uint (exc_ec (rtu_pdu frm1)), inst = hinst, tx = tx, out = ()\<rparr>
                       else \<lparr>ret = 1, inst = hinst, tx = tx, out = ()\<rparr>)))"

definition modbus_write_single_tcp ::
  "mb_cfg \<Rightarrow> mb_ext \<Rightarrow> mb_env \<Rightarrow> mb_inst \<Rightarrow> u8 \<Rightarrow> u16 \<Rightarrow> u16 \<Rightarrow> (unit) mb_result" where
  "modbus_write_single_tcp cfg ext env hinst0 func addr val =
     (let hinst = hinst0\<lparr>tsid := tsid hinst0 + 1\<rparr>;
          frm = (tcp_frm0 env)
                  \<lparr>mbap := (mbap (tcp_frm0 env))
                             \<lparr>mbap_tid := tsid hinst, mbap_pid := MB_TCP_MBAP_PID,
                              mbap_did := saddr hinst\<rparr>,
                   tcp_pdu := (tcp_pdu (tcp_frm0 env))\<lparr>fc := func, wr_single_addr := addr, wr_single_val := val\<rparr>\<rparr>;
          tx = modbus_tcp_frm_make ext frm MB_PDU_TYPE_REQ;
          flen = int (length tx);
          slen = modbus_send env tx
      in if slen \<noteq> flen then \<lparr>ret = 0, inst = hinst, tx = tx, out = ()\<rparr>
         else
           (case modbus_recv env of
              (rlen, buf) \<Rightarrow>
                if rlen \<le> 0 then \<lparr>ret = 0, inst = hinst, tx = tx, out = ()\<rparr>
                else
                  (case modbus_tcp_frm_parse ext buf rlen frm MB_PDU_TYPE_RSP of
                     (pdu_len, frm1) \<Rightarrow>
                       if pdu_len < 0 then \<lparr>ret = 0, inst = hinst, tx = tx, out = ()\<rparr>
                       else if MB_USING_ADDR_CHK cfg \<and> mbap_did (mbap frm1) \<noteq> saddr hinst then \<lparr>ret = 0, inst = hinst, tx = tx, out = ()\<rparr>
                       else if MB_USING_MBAP_CHK cfg \<and>
                               (mbap_tid (mbap frm1) \<noteq> tid hinst \<or>
                                mbap_pid (mbap frm1) \<noteq> MB_TCP_MBAP_PID \<or>
                                uint (mbap_dlen (mbap frm1)) \<noteq> pdu_len + 1) then \<lparr>ret = 0, inst = hinst, tx = tx, out = ()\<rparr>
                       else if MODBUS_FC_EXCEPT_CHK (fc (tcp_pdu frm1))
                         then \<lparr>ret = - uint (exc_ec (tcp_pdu frm1)), inst = hinst, tx = tx, out = ()\<rparr>
                       else \<lparr>ret = 1, inst = hinst, tx = tx, out = ()\<rparr>)))"

definition modbus_write_single ::
  "mb_cfg \<Rightarrow> mb_ext \<Rightarrow> mb_env \<Rightarrow> mb_inst \<Rightarrow> u8 \<Rightarrow> u16 \<Rightarrow> u16 \<Rightarrow> unit mb_result" where
  "modbus_write_single cfg ext env hinst func addr val =
     (case prototype hinst of
        MB_PROT_RTU \<Rightarrow>
          if MB_USING_RTU_PROTOCOL cfg then modbus_write_single_rtu cfg ext env hinst func addr val
          else \<lparr>ret = 0, inst = hinst, tx = [], out = ()\<rparr>
      | MB_PROT_TCP \<Rightarrow>
          if MB_USING_TCP_PROTOCOL cfg then modbus_write_single_tcp cfg ext env hinst func addr val
          else \<lparr>ret = 0, inst = hinst, tx = [], out = ()\<rparr>)"

definition modbus_write_bit ::
  "mb_cfg \<Rightarrow> mb_ext \<Rightarrow> mb_env \<Rightarrow> mb_inst \<Rightarrow> u16 \<Rightarrow> u8 \<Rightarrow> unit mb_result" where
  "modbus_write_bit cfg ext env hinst addr b =
     (let val = (if b \<noteq> 0 then 0xFF00 else 0x0000)
      in modbus_write_single cfg ext env hinst MODBUS_FC_WRITE_SINGLE_COIL addr val)"

definition modbus_write_reg ::
  "mb_cfg \<Rightarrow> mb_ext \<Rightarrow> mb_env \<Rightarrow> mb_inst \<Rightarrow> u16 \<Rightarrow> u16 \<Rightarrow> unit mb_result" where
  "modbus_write_reg cfg ext env hinst addr val =
     modbus_write_single cfg ext env hinst MODBUS_FC_WRITE_SINGLE_REGISTER addr val"

subsection \<open>The public write-multiple operations\<close>

text \<open>A \<open>uint16_t *\<close> argument is modelled like a byte pointer: \<open>pregs i\<close> is \<open>pregs[i]\<close>.\<close>

definition put_regs :: "(nat \<Rightarrow> u16) \<Rightarrow> int \<Rightarrow> u8 list" where
  "put_regs pregs nb = concat (map (\<lambda>i. modbus_cvt_u16_put (pregs i)) [0..<nat nb])"

definition modbus_write_bits ::
  "mb_cfg \<Rightarrow> mb_ext \<Rightarrow> mb_env \<Rightarrow> mb_inst \<Rightarrow> u16 \<Rightarrow> int \<Rightarrow> bytes_at \<Rightarrow> unit mb_result" where
  "modbus_write_bits cfg ext env hinst addr nb pbits =
     (let dlen = (nb + 7) div 8
      in modbus_write_req cfg ext env hinst MODBUS_FC_WRITE_MULTIPLE_COILS addr nb pbits dlen)"

definition modbus_write_regs ::
  "mb_cfg \<Rightarrow> mb_ext \<Rightarrow> mb_env \<Rightarrow> mb_inst \<Rightarrow> u16 \<Rightarrow> int \<Rightarrow> (nat \<Rightarrow> u16) \<Rightarrow> unit mb_result" where
  "modbus_write_regs cfg ext env hinst0 addr nb pregs =
     (let hinst = hinst0\<lparr>datas := store_at (datas hinst0) 0 (put_regs pregs nb)\<rparr>;
          dlen = nb * 2
      in modbus_write_req cfg ext env hinst MODBUS_FC_WRITE_MULTIPLE_REGISTERS addr nb
           (datas hinst) dlen)"

subsection \<open>Mask write: 0x16\<close>

definition modbus_mask_write_rtu ::
  "mb_cfg \<Rightarrow> mb_ext \<Rightarrow> mb_env \<Rightarrow> mb_inst \<Rightarrow> u16 \<Rightarrow> u16 \<Rightarrow> u16 \<Rightarrow> (unit) mb_result" where
  "modbus_mask_write_rtu cfg ext env hinst addr val_and val_or =
     (let frm = (rtu_frm0 env)
                  \<lparr>rtu_saddr := saddr hinst,
                   rtu_pdu := (rtu_pdu (rtu_frm0 env))\<lparr>fc := MODBUS_FC_MASK_WRITE_REGISTER, mask_wr_addr := addr,
                      mask_wr_val_and := val_and, mask_wr_val_or := val_or\<rparr>\<rparr>;
          tx = modbus_rtu_frame_make ext frm MB_PDU_TYPE_REQ;
          flen = int (length tx);
          slen = modbus_send env tx
      in if slen \<noteq> flen then \<lparr>ret = 0, inst = hinst, tx = tx, out = ()\<rparr>
         else
           (case modbus_recv env of
              (rlen, buf) \<Rightarrow>
                if rlen \<le> 0 then \<lparr>ret = 0, inst = hinst, tx = tx, out = ()\<rparr>
                else
                  (case modbus_rtu_frame_parse ext buf rlen frm MB_PDU_TYPE_RSP of
                     (pdu_len, frm1) \<Rightarrow>
                       if pdu_len \<le> 0 then \<lparr>ret = 0, inst = hinst, tx = tx, out = ()\<rparr>
                       else if MB_USING_ADDR_CHK cfg \<and> rtu_saddr frm1 \<noteq> saddr hinst then \<lparr>ret = 0, inst = hinst, tx = tx, out = ()\<rparr>
                       else if MODBUS_FC_EXCEPT_CHK (fc (rtu_pdu frm1))
                         then \<lparr>ret = - uint (exc_ec (rtu_pdu frm1)), inst = hinst, tx = tx, out = ()\<rparr>
                       else \<lparr>ret = 1, inst = hinst, tx = tx, out = ()\<rparr>)))"

definition modbus_mask_write_tcp ::
  "mb_cfg \<Rightarrow> mb_ext \<Rightarrow> mb_env \<Rightarrow> mb_inst \<Rightarrow> u16 \<Rightarrow> u16 \<Rightarrow> u16 \<Rightarrow> (unit) mb_result" where
  "modbus_mask_write_tcp cfg ext env hinst0 addr val_and val_or =
     (let hinst = hinst0\<lparr>tsid := tsid hinst0 + 1\<rparr>;
          frm = (tcp_frm0 env)
                  \<lparr>mbap := (mbap (tcp_frm0 env))
                             \<lparr>mbap_tid := tsid hinst, mbap_pid := MB_TCP_MBAP_PID,
                              mbap_did := saddr hinst\<rparr>,
                   tcp_pdu := (tcp_pdu (tcp_frm0 env))\<lparr>fc := MODBUS_FC_MASK_WRITE_REGISTER, mask_wr_addr := addr,
                      mask_wr_val_and := val_and, mask_wr_val_or := val_or\<rparr>\<rparr>;
          tx = modbus_tcp_frm_make ext frm MB_PDU_TYPE_REQ;
          flen = int (length tx);
          slen = modbus_send env tx
      in if slen \<noteq> flen then \<lparr>ret = 0, inst = hinst, tx = tx, out = ()\<rparr>
         else
           (case modbus_recv env of
              (rlen, buf) \<Rightarrow>
                if rlen \<le> 0 then \<lparr>ret = 0, inst = hinst, tx = tx, out = ()\<rparr>
                else
                  (case modbus_tcp_frm_parse ext buf rlen frm MB_PDU_TYPE_RSP of
                     (pdu_len, frm1) \<Rightarrow>
                       if pdu_len < 0 then \<lparr>ret = 0, inst = hinst, tx = tx, out = ()\<rparr>
                       else if MB_USING_ADDR_CHK cfg \<and> mbap_did (mbap frm1) \<noteq> saddr hinst then \<lparr>ret = 0, inst = hinst, tx = tx, out = ()\<rparr>
                       else if MB_USING_MBAP_CHK cfg \<and>
                               (mbap_tid (mbap frm1) \<noteq> tid hinst \<or>
                                mbap_pid (mbap frm1) \<noteq> MB_TCP_MBAP_PID \<or>
                                uint (mbap_dlen (mbap frm1)) \<noteq> pdu_len + 1) then \<lparr>ret = 0, inst = hinst, tx = tx, out = ()\<rparr>
                       else if MODBUS_FC_EXCEPT_CHK (fc (tcp_pdu frm1))
                         then \<lparr>ret = - uint (exc_ec (tcp_pdu frm1)), inst = hinst, tx = tx, out = ()\<rparr>
                       else \<lparr>ret = 1, inst = hinst, tx = tx, out = ()\<rparr>)))"

definition modbus_mask_write_reg ::
  "mb_cfg \<Rightarrow> mb_ext \<Rightarrow> mb_env \<Rightarrow> mb_inst \<Rightarrow> u16 \<Rightarrow> u16 \<Rightarrow> u16 \<Rightarrow> unit mb_result" where
  "modbus_mask_write_reg cfg ext env hinst addr mask_and mask_or =
     (case prototype hinst of
        MB_PROT_RTU \<Rightarrow>
          if MB_USING_RTU_PROTOCOL cfg
          then modbus_mask_write_rtu cfg ext env hinst addr mask_and mask_or
          else \<lparr>ret = 0, inst = hinst, tx = [], out = ()\<rparr>
      | MB_PROT_TCP \<Rightarrow>
          if MB_USING_TCP_PROTOCOL cfg
          then modbus_mask_write_tcp cfg ext env hinst addr mask_and mask_or
          else \<lparr>ret = 0, inst = hinst, tx = [], out = ()\<rparr>)"

subsection \<open>Write and read registers: 0x17\<close>

definition modbus_write_and_read_regs_rtu ::
  "mb_cfg \<Rightarrow> mb_ext \<Rightarrow> mb_env \<Rightarrow> mb_inst \<Rightarrow> u16 \<Rightarrow> int \<Rightarrow> (nat \<Rightarrow> u16) \<Rightarrow> u16 \<Rightarrow> int \<Rightarrow> (u16 list) mb_result" where
  "modbus_write_and_read_regs_rtu cfg ext env hinst0 wr_addr wr_nb p_wr_regs rd_addr rd_nb =
     (let hinst = hinst0\<lparr>datas := store_at (datas hinst0) 0 (put_regs p_wr_regs wr_nb)\<rparr>;
          frm = (rtu_frm0 env)
                  \<lparr>rtu_saddr := saddr hinst,
                   rtu_pdu := (rtu_pdu (rtu_frm0 env))\<lparr>fc := MODBUS_FC_WRITE_AND_READ_REGISTERS,
                      wr_rd_req_rd_addr := rd_addr, wr_rd_req_rd_nb := word_of_int rd_nb,
                      wr_rd_req_wr_addr := wr_addr, wr_rd_req_wr_nb := word_of_int wr_nb,
                      wr_rd_req_dlen := word_of_int (wr_nb * 2),
                      wr_rd_req_pdata := datas hinst\<rparr>\<rparr>;
          tx = modbus_rtu_frame_make ext frm MB_PDU_TYPE_REQ;
          flen = int (length tx);
          slen = modbus_send env tx
      in if slen \<noteq> flen then \<lparr>ret = 0, inst = hinst, tx = tx, out = []\<rparr>
         else
           (case modbus_recv env of
              (rlen, buf) \<Rightarrow>
                if rlen \<le> 0 then \<lparr>ret = 0, inst = hinst, tx = tx, out = []\<rparr>
                else
                  (case modbus_rtu_frame_parse ext buf rlen frm MB_PDU_TYPE_RSP of
                     (pdu_len, frm1) \<Rightarrow>
                       if pdu_len \<le> 0 then \<lparr>ret = 0, inst = hinst, tx = tx, out = []\<rparr>
                       else if MB_USING_ADDR_CHK cfg \<and> rtu_saddr frm1 \<noteq> saddr hinst then \<lparr>ret = 0, inst = hinst, tx = tx, out = []\<rparr>
                       else if MODBUS_FC_EXCEPT_CHK (fc (rtu_pdu frm1))
                         then \<lparr>ret = - uint (exc_ec (rtu_pdu frm1)), inst = hinst, tx = tx, out = []\<rparr>
                       else (let dlen = uint (rd_rsp_dlen (rtu_pdu frm1))
                             in if dlen \<noteq> rd_nb * 2
                                then \<lparr>ret = 0, inst = hinst, tx = tx, out = []\<rparr>
                                else \<lparr>ret = rd_nb, inst = hinst, tx = tx,
                                      out = regs_of (rd_rsp_pdata (rtu_pdu frm1)) (nat rd_nb)\<rparr>))))"

definition modbus_write_and_read_regs_tcp ::
  "mb_cfg \<Rightarrow> mb_ext \<Rightarrow> mb_env \<Rightarrow> mb_inst \<Rightarrow> u16 \<Rightarrow> int \<Rightarrow> (nat \<Rightarrow> u16) \<Rightarrow> u16 \<Rightarrow> int \<Rightarrow> (u16 list) mb_result" where
  "modbus_write_and_read_regs_tcp cfg ext env hinst0 wr_addr wr_nb p_wr_regs rd_addr rd_nb =
     (let hinst = hinst0\<lparr>tsid := tsid hinst0 + 1, datas := store_at (datas hinst0) 0 (put_regs p_wr_regs wr_nb)\<rparr>;
          frm = (tcp_frm0 env)
                  \<lparr>mbap := (mbap (tcp_frm0 env))
                             \<lparr>mbap_tid := tsid hinst, mbap_pid := MB_TCP_MBAP_PID,
                              mbap_did := saddr hinst\<rparr>,
                   tcp_pdu := (tcp_pdu (tcp_frm0 env))\<lparr>fc := MODBUS_FC_WRITE_AND_READ_REGISTERS,
                      wr_rd_req_rd_addr := rd_addr, wr_rd_req_rd_nb := word_of_int rd_nb,
                      wr_rd_req_wr_addr := wr_addr, wr_rd_req_wr_nb := word_of_int wr_nb,
                      wr_rd_req_dlen := word_of_int (wr_nb * 2),
                      wr_rd_req_pdata := datas hinst\<rparr>\<rparr>;
          tx = modbus_tcp_frm_make ext frm MB_PDU_TYPE_REQ;
          flen = int (length tx);
          slen = modbus_send env tx
      in if slen \<noteq> flen then \<lparr>ret = 0, inst = hinst, tx = tx, out = []\<rparr>
         else
           (case modbus_recv env of
              (rlen, buf) \<Rightarrow>
                if rlen \<le> 0 then \<lparr>ret = 0, inst = hinst, tx = tx, out = []\<rparr>
                else
                  (case modbus_tcp_frm_parse ext buf rlen frm MB_PDU_TYPE_RSP of
                     (pdu_len, frm1) \<Rightarrow>
                       if pdu_len < 0 then \<lparr>ret = 0, inst = hinst, tx = tx, out = []\<rparr>
                       else if MB_USING_ADDR_CHK cfg \<and> mbap_did (mbap frm1) \<noteq> saddr hinst then \<lparr>ret = 0, inst = hinst, tx = tx, out = []\<rparr>
                       else if MB_USING_MBAP_CHK cfg \<and>
                               (mbap_tid (mbap frm1) \<noteq> tid hinst \<or>
                                mbap_pid (mbap frm1) \<noteq> MB_TCP_MBAP_PID \<or>
                                uint (mbap_dlen (mbap frm1)) \<noteq> pdu_len + 1) then \<lparr>ret = 0, inst = hinst, tx = tx, out = []\<rparr>
                       else if MODBUS_FC_EXCEPT_CHK (fc (tcp_pdu frm1))
                         then \<lparr>ret = - uint (exc_ec (tcp_pdu frm1)), inst = hinst, tx = tx, out = []\<rparr>
                       else (let dlen = uint (rd_rsp_dlen (tcp_pdu frm1))
                             in if dlen \<noteq> rd_nb * 2
                                then \<lparr>ret = 0, inst = hinst, tx = tx, out = []\<rparr>
                                else \<lparr>ret = rd_nb, inst = hinst, tx = tx,
                                      out = regs_of (rd_rsp_pdata (tcp_pdu frm1)) (nat rd_nb)\<rparr>))))"

definition mb_write_and_read_regs ::
  "mb_cfg \<Rightarrow> mb_ext \<Rightarrow> mb_env \<Rightarrow> mb_inst \<Rightarrow> u16 \<Rightarrow> int \<Rightarrow> (nat \<Rightarrow> u16) \<Rightarrow> u16 \<Rightarrow> int
     \<Rightarrow> (u16 list) mb_result" where
  "mb_write_and_read_regs cfg ext env hinst wr_addr wr_nb p_wr_regs rd_addr rd_nb =
     (case prototype hinst of
        MB_PROT_RTU \<Rightarrow>
          if MB_USING_RTU_PROTOCOL cfg
          then modbus_write_and_read_regs_rtu cfg ext env hinst wr_addr wr_nb p_wr_regs rd_addr rd_nb
          else \<lparr>ret = 0, inst = hinst, tx = [], out = []\<rparr>
      | MB_PROT_TCP \<Rightarrow>
          if MB_USING_TCP_PROTOCOL cfg
          then modbus_write_and_read_regs_tcp cfg ext env hinst wr_addr wr_nb p_wr_regs rd_addr rd_nb
          else \<lparr>ret = 0, inst = hinst, tx = [], out = []\<rparr>)"

subsection \<open>Successive TCP transactions\<close>

text \<open>
  The five TCP transaction functions behind the public operations, as one function of
  the call made: it gives the instance after the transaction and the frame handed to
  \<open>modbus_send\<close>. \<open>tcp_transactions\<close> runs a list of calls on one instance, each with
  its own outside, and collects the frames. \<open>frame_tid\<close> reads the transaction
  identifier, the first two bytes of a frame.
\<close>

datatype mb_call =
    Call_read_req u8 u16 int
  | Call_write_req u8 u16 int bytes_at int
  | Call_write_single u8 u16 u16
  | Call_mask_write u16 u16 u16
  | Call_write_and_read_regs u16 int "nat \<Rightarrow> u16" u16 int

fun tcp_transaction :: "mb_cfg \<Rightarrow> mb_ext \<Rightarrow> mb_env \<Rightarrow> mb_inst \<Rightarrow> mb_call \<Rightarrow> mb_inst \<times> u8 list" where
  "tcp_transaction cfg ext env hinst (Call_read_req func addr nb) =
     (let r = modbus_read_req_tcp cfg ext env hinst func addr nb in (inst r, tx r))"
| "tcp_transaction cfg ext env hinst (Call_write_req func addr nb pdata dlen) =
     (let r = modbus_write_req_tcp cfg ext env hinst func addr nb pdata dlen in (inst r, tx r))"
| "tcp_transaction cfg ext env hinst (Call_write_single func addr val) =
     (let r = modbus_write_single_tcp cfg ext env hinst func addr val in (inst r, tx r))"
| "tcp_transaction cfg ext env hinst (Call_mask_write addr val_and val_or) =
     (let r = modbus_mask_write_tcp cfg ext env hinst addr val_and val_or in (inst r, tx r))"
| "tcp_transaction cfg ext env hinst (Call_write_and_read_regs wr_addr wr_nb p_wr_regs rd_addr rd_nb) =
     (let r = modbus_write_and_read_regs_tcp cfg ext env hinst wr_addr wr_nb p_wr_regs rd_addr rd_nb
      in (inst r, tx r))"

fun tcp_transactions ::
  "mb_cfg \<Rightarrow> mb_ext \<Rightarrow> mb_inst \<Rightarrow> (mb_env \<times> mb_call) list \<Rightarrow> u8 list list \<times> mb_inst" where
  "tcp_transactions cfg ext hinst [] = ([], hinst)"
| "tcp_transactions cfg ext hinst ((env, call) # rest) =
     (case tcp_transaction cfg ext env hinst call of
        (hinst1, frame) \<Rightarrow>
          (case tcp_transactions cfg ext hinst1 rest of
             (frames, hinst2) \<Rightarrow> (frame # frames, hinst2)))"

definition frame_tid :: "u8 list \<Rightarrow> u16" where
  "frame_tid frame = modbus_cvt_u16_get (buf_of frame)"

section \<open>Transport backend: \<open>modbus_backend_read\<close>\<close>

text \<open>
  The fields of \<open>mb_backend_t\<close> that \<open>modbus_backend_read\<close> uses. \<open>bk_hinst\<close> is the
  handle \<open>backend->hinst\<close> (\<open>None\<close> is \<open>NULL\<close>: not open); \<open>ops\<close> is the operations table
  (\<open>None\<close> is \<open>NULL\<close>), of which \<open>ops_read\<close> tells whether \<open>ops->read\<close> is set.
\<close>

record mb_backend_ops =
  ops_read :: bool

record mb_backend =
  bk_hinst :: "nat option"
  ops :: "mb_backend_ops option"
  ack_tmo_ms :: int
  byte_tmo_ms :: int

text \<open>
  What the outside does during one iteration of the receive loop. The iteration calls
  \<open>ops->read(hinst, buf + pos, bufsize - pos)\<close> once: \<open>port_read p size\<close> is its result
  for the size it is given, with the bytes it stored at \<open>buf + pos\<close>. If the result is
  not negative the iteration reads the clock \<open>modbus_port_get_ms()\<close> once: \<open>now_ms p\<close>.
  The effect of \<open>modbus_port_delay_ms(2)\<close> is the later reading of the next iteration.
\<close>

record mb_poll =
  port_read :: "int \<Rightarrow> int \<times> u8 list"
  now_ms :: int

text \<open>
  \<open>int tmo_ms = modbus_port_get_ms() - told_ms\<close>: the difference of two \<open>long long\<close>
  clock readings, converted to a 32-bit \<open>int\<close>.
\<close>

definition elapsed_ms :: "int \<Rightarrow> int \<Rightarrow> int" where
  "elapsed_ms now told = sint (word_of_int (now - told) :: 32 word)"

text \<open>
  The loop \<open>while (pos < bufsize)\<close> with its state \<open>pos\<close>, \<open>told_ms\<close> and the buffer. The
  polls are consumed one per iteration; \<open>None\<close> means that they ran out before the
  function returned. The result is the returned \<open>int\<close> with the buffer.
\<close>

fun backend_read_loop ::
  "mb_backend \<Rightarrow> int \<Rightarrow> mb_poll list \<Rightarrow> int \<Rightarrow> int \<Rightarrow> bytes_at \<Rightarrow> (int \<times> bytes_at) option" where
  "backend_read_loop backend bufsize [] pos told_ms buf =
     (if pos < bufsize then None else Some (pos, buf))"
| "backend_read_loop backend bufsize (p # polls) pos told_ms buf =
     (if pos < bufsize then
        (case port_read p (bufsize - pos) of
           (len, bs) \<Rightarrow>
             if len < 0 then Some (- 1, buf)
             else if len > 0 then
               backend_read_loop backend bufsize polls (pos + len) (now_ms p)
                 (store_at buf (nat pos) bs)
             else
               (let tmo_ms = elapsed_ms (now_ms p) told_ms
                in if pos \<noteq> 0 then
                     (if tmo_ms > byte_tmo_ms backend then Some (pos, buf)
                      else backend_read_loop backend bufsize polls pos told_ms buf)
                   else
                     (if tmo_ms > ack_tmo_ms backend then Some (pos, buf)
                      else backend_read_loop backend bufsize polls pos told_ms buf)))
      else Some (pos, buf))"

text \<open>
  \<open>modbus_backend_read\<close>. The pointers \<open>backend\<close> and \<open>buf\<close> may be \<open>NULL\<close> (\<open>None\<close>);
  \<open>t0\<close> is the clock reading that initialises \<open>told_ms\<close>.
\<close>

definition modbus_backend_read ::
  "mb_backend option \<Rightarrow> bytes_at option \<Rightarrow> int \<Rightarrow> int \<Rightarrow> mb_poll list
     \<Rightarrow> (int \<times> bytes_at option) option" where
  "modbus_backend_read backend buf bufsize t0 polls =
     (case (backend, buf) of
        (Some b, Some bf) \<Rightarrow>
          if bufsize \<le> 0 then Some (- 1, buf)
          else if bk_hinst b = None then Some (- 1, buf)
          else
            (case ops b of
               None \<Rightarrow> Some (- 1, buf)
             | Some tbl \<Rightarrow>
                 if \<not> ops_read tbl then Some (- 1, buf)
                 else map_option (\<lambda>(r, bf1). (r, Some bf1))
                        (backend_read_loop b bufsize polls 0 t0 bf))
      | _ \<Rightarrow> Some (- 1, buf))"

subsection \<open>Calls described by the chunks they receive\<close>

text \<open>
  A call that receives data is described by its chunks. Each chunk is the polls at
  which the read returned 0 before it (\<open>seg_idle\<close>), the poll whose read delivers it
  (\<open>seg_chunk\<close>) and the bytes delivered (\<open>seg_bytes\<close>). \<open>script\<close> is the sequence of polls
  of the chunks, in order.
\<close>

record mb_segment =
  seg_idle :: "mb_poll list"
  seg_chunk :: mb_poll
  seg_bytes :: "u8 list"

definition script :: "mb_segment list \<Rightarrow> mb_poll list" where
  "script segs = concat (map (\<lambda>s. seg_idle s @ [seg_chunk s]) segs)"

text \<open>
  After \<open>k\<close> chunks: the number of bytes received, the clock reading at the last
  chunk received (at the start of the call when there is none yet), and the timeout
  that the claim names for that situation.
\<close>

definition received :: "mb_segment list \<Rightarrow> nat \<Rightarrow> int" where
  "received segs k = int (length (concat (map seg_bytes (take k segs))))"

definition last_ms :: "int \<Rightarrow> mb_segment list \<Rightarrow> nat \<Rightarrow> int" where
  "last_ms t0 segs k = (if k = 0 then t0 else now_ms (seg_chunk (segs ! (k - 1))))"

definition tmo_in_force :: "mb_backend \<Rightarrow> nat \<Rightarrow> int" where
  "tmo_in_force b k = (if k = 0 then ack_tmo_ms b else byte_tmo_ms b)"

section \<open>The codec of the spec\<close>

text \<open>
  Modelled from the spec: the CRC (\<open>modbus_crc_cyc_cal\<close>, \<open>modbus_crc_cal\<close>, declared in
  \<open>modbus_crc.h\<close>), the PDU codec and the RTU frame codec are defined in files that are
  not among the sources. The definitions below follow sections 4.2, 4.3 and 4.4 of the
  spec. The theorems about the master and the slave hold for every codec; this one
  provides the frames of the examples.
\<close>

definition MB_CRC_INIT_VOL :: u16 where "MB_CRC_INIT_VOL = 0xFFFF"

definition crc_shift :: "u16 \<Rightarrow> u16" where
  "crc_shift c = (if bit c 0 then drop_bit 1 c XOR 0xA001 else drop_bit 1 c)"

definition crc_byte :: "u8 \<Rightarrow> u16 \<Rightarrow> u16" where
  "crc_byte b c =
     crc_shift (crc_shift (crc_shift (crc_shift
       (crc_shift (crc_shift (crc_shift (crc_shift (c XOR ucast b))))))))"

definition modbus_crc_cyc_cal :: "u16 \<Rightarrow> u8 list \<Rightarrow> u16" where
  "modbus_crc_cyc_cal init bs = fold crc_byte bs init"

definition modbus_crc_cal :: "u8 list \<Rightarrow> u16" where
  "modbus_crc_cal bs = modbus_crc_cyc_cal MB_CRC_INIT_VOL bs"

text \<open>
  Section 4.3, \<open>pdu_make\<close>: the layouts of the requests and of the responses. An
  exception response is \<open>[fc | 0x80][ec]\<close>. A function code without a layout gives no
  bytes.
\<close>

definition spec_pdu_make :: "mb_pdu \<Rightarrow> mb_pdu_type \<Rightarrow> u8 list" where
  "spec_pdu_make pdu type =
     (let c = fc pdu in
      if type = MB_PDU_TYPE_RSP \<and> MODBUS_FC_EXCEPT_CHK c then [c, exc_ec pdu]
      else if c = 0x01 \<or> c = 0x02 \<or> c = 0x03 \<or> c = 0x04 then
        (if type = MB_PDU_TYPE_REQ
         then [c] @ modbus_cvt_u16_put (rd_req_addr pdu) @ modbus_cvt_u16_put (rd_req_nb pdu)
         else [c, rd_rsp_dlen pdu] @ bytes_of (rd_rsp_pdata pdu) (unat (rd_rsp_dlen pdu)))
      else if c = 0x05 \<or> c = 0x06 then
        [c] @ modbus_cvt_u16_put (wr_single_addr pdu) @ modbus_cvt_u16_put (wr_single_val pdu)
      else if c = 0x0F \<or> c = 0x10 then
        (if type = MB_PDU_TYPE_REQ
         then [c] @ modbus_cvt_u16_put (wr_req_addr pdu) @ modbus_cvt_u16_put (wr_req_nb pdu) @
              [wr_req_dlen pdu] @ bytes_of (wr_req_pdata pdu) (unat (wr_req_dlen pdu))
         else [c] @ modbus_cvt_u16_put (wr_rsp_addr pdu) @ modbus_cvt_u16_put (wr_rsp_nb pdu))
      else if c = 0x16 then
        [c] @ modbus_cvt_u16_put (mask_wr_addr pdu) @ modbus_cvt_u16_put (mask_wr_val_and pdu) @
        modbus_cvt_u16_put (mask_wr_val_or pdu)
      else if c = 0x17 then
        (if type = MB_PDU_TYPE_REQ
         then [c] @ modbus_cvt_u16_put (wr_rd_req_rd_addr pdu) @
              modbus_cvt_u16_put (wr_rd_req_rd_nb pdu) @
              modbus_cvt_u16_put (wr_rd_req_wr_addr pdu) @
              modbus_cvt_u16_put (wr_rd_req_wr_nb pdu) @
              [wr_rd_req_dlen pdu] @ bytes_of (wr_rd_req_pdata pdu) (unat (wr_rd_req_dlen pdu))
         else [c, rd_rsp_dlen pdu] @ bytes_of (rd_rsp_pdata pdu) (unat (rd_rsp_dlen pdu)))
      else [])"

text \<open>
  Section 4.3, \<open>pdu_parse\<close>: the length of the PDU, 0 for a malformed PDU, \<open>-1\<close> for a
  function code that is not supported. The function code is stored first. A read
  quantity must be in 1..2000 (bits) or 1..125 (registers); a register byte count must
  be even; the byte count of a write must match the quantity; the payload must fit in
  the length.
\<close>

definition spec_pdu_parse :: "bytes_at \<Rightarrow> int \<Rightarrow> mb_pdu \<Rightarrow> mb_pdu_type \<Rightarrow> int \<times> mb_pdu" where
  "spec_pdu_parse buf len pdu0 type =
     (if len < 2 then (0, pdu0)
      else
        (let c = buf 0;
             pdu = pdu0\<lparr>fc := c\<rparr>;
             a = modbus_cvt_u16_get (ptr_add buf 1);
             b = modbus_cvt_u16_get (ptr_add buf 3)
         in if type = MB_PDU_TYPE_RSP \<and> MODBUS_FC_EXCEPT_CHK c then (2, pdu\<lparr>exc_ec := buf 1\<rparr>)
            else if c = 0x01 \<or> c = 0x02 \<or> c = 0x03 \<or> c = 0x04 then
              (if type = MB_PDU_TYPE_REQ then
                 (if len < 5 then (0, pdu)
                  else if b = 0 \<or> ((c = 0x01 \<or> c = 0x02) \<and> 2000 < b)
                          \<or> ((c = 0x03 \<or> c = 0x04) \<and> 125 < b) then (0, pdu)
                  else (5, pdu\<lparr>rd_req_addr := a, rd_req_nb := b\<rparr>))
               else
                 (let bc = buf 1
                  in if len < 2 + uint bc then (0, pdu)
                     else if (c = 0x03 \<or> c = 0x04) \<and> odd (unat bc) then (0, pdu)
                     else (2 + uint bc, pdu\<lparr>rd_rsp_dlen := bc, rd_rsp_pdata := ptr_add buf 2\<rparr>)))
            else if c = 0x05 \<or> c = 0x06 then
              (if len < 5 then (0, pdu)
               else (5, pdu\<lparr>wr_single_addr := a, wr_single_val := b\<rparr>))
            else if c = 0x0F \<or> c = 0x10 then
              (if type = MB_PDU_TYPE_REQ then
                 (if len < 6 then (0, pdu)
                  else
                    (let bc = buf 5
                     in if (c = 0x0F \<and> unat bc \<noteq> (unat b + 7) div 8)
                           \<or> (c = 0x10 \<and> unat bc \<noteq> 2 * unat b) then (0, pdu)
                        else if len < 6 + uint bc then (0, pdu)
                        else (6 + uint bc,
                              pdu\<lparr>wr_req_addr := a, wr_req_nb := b, wr_req_dlen := bc,
                                  wr_req_pdata := ptr_add buf 6\<rparr>)))
               else
                 (if len < 5 then (0, pdu)
                  else (5, pdu\<lparr>wr_req_addr := a, wr_req_nb := b\<rparr>)))
            else if c = 0x16 then
              (if len < 7 then (0, pdu)
               else (7, pdu\<lparr>mask_wr_addr := a, mask_wr_val_and := b,
                            mask_wr_val_or := modbus_cvt_u16_get (ptr_add buf 5)\<rparr>))
            else if c = 0x17 then
              (if type = MB_PDU_TYPE_REQ then
                 (if len < 10 then (0, pdu)
                  else
                    (let wa = modbus_cvt_u16_get (ptr_add buf 5);
                         wn = modbus_cvt_u16_get (ptr_add buf 7);
                         bc = buf 9
                     in if unat bc \<noteq> 2 * unat wn then (0, pdu)
                        else if len < 10 + uint bc then (0, pdu)
                        else (10 + uint bc,
                              pdu\<lparr>wr_rd_req_rd_addr := a, wr_rd_req_rd_nb := b,
                                  wr_rd_req_wr_addr := wa, wr_rd_req_wr_nb := wn,
                                  wr_rd_req_dlen := bc, wr_rd_req_pdata := ptr_add buf 10\<rparr>)))
               else
                 (let bc = buf 1
                  in if len < 2 + uint bc then (0, pdu)
                     else if odd (unat bc) then (0, pdu)
                     else (2 + uint bc, pdu\<lparr>rd_rsp_dlen := bc, rd_rsp_pdata := ptr_add buf 2\<rparr>)))
            else (- 1, pdu)))"

text \<open>
  Section 4.4: the RTU frame is the slave address, the PDU and the CRC of both, low
  byte first. \<open>rtu_parse\<close> needs four bytes, returns 0 when the CRC does not match,
  then reads the address and parses the bytes between the address and the CRC.
\<close>

definition spec_rtu_frame_make :: "mb_rtu_frm \<Rightarrow> mb_pdu_type \<Rightarrow> u8 list" where
  "spec_rtu_frame_make frm type =
     (let body = [rtu_saddr frm] @ spec_pdu_make (rtu_pdu frm) type;
          crc = modbus_crc_cal body
      in body @ [ucast crc, ucast (drop_bit 8 crc)])"

definition spec_rtu_frame_parse ::
  "bytes_at \<Rightarrow> int \<Rightarrow> mb_rtu_frm \<Rightarrow> mb_pdu_type \<Rightarrow> int \<times> mb_rtu_frm" where
  "spec_rtu_frame_parse buf len frm type =
     (if len < 4 then (0, frm)
      else
        (let n = nat len;
             crc = modbus_crc_cal (bytes_of buf (n - 2))
         in if buf (n - 2) \<noteq> ucast crc \<or> buf (n - 1) \<noteq> ucast (drop_bit 8 crc) then (0, frm)
            else
              (case spec_pdu_parse (ptr_add buf 1) (len - 3) (rtu_pdu frm) type of
                 (pdu_len, pdu1) \<Rightarrow> (pdu_len, frm\<lparr>rtu_saddr := buf 0, rtu_pdu := pdu1\<rparr>))))"

definition spec_ext :: mb_ext where
  "spec_ext =
     \<lparr>MB_PDU_SIZE_MIN = 2,
      modbus_pdu_make = spec_pdu_make,
      modbus_pdu_parse = spec_pdu_parse,
      modbus_rtu_frame_make = spec_rtu_frame_make,
      modbus_rtu_frame_parse = spec_rtu_frame_parse\<rparr>"


section \<open>Example inputs\<close>

text \<open>
  A device for the examples: holding registers and coils at the addresses below 100.
  Its callbacks return \<open>-2\<close> for any other address, the value that the default port
  functions of \<open>modbus_slave.c\<close> return.
\<close>

record demo_dev =
  d_regs :: "u16 \<Rightarrow> u16"
  d_coils :: "u16 \<Rightarrow> u8"

definition demo_read_coil :: "u16 \<Rightarrow> demo_dev \<Rightarrow> int \<times> u8 \<times> demo_dev" where
  "demo_read_coil a d = (if a < 100 then (0, d_coils d a, d) else (- 2, 0, d))"

definition demo_write_coil :: "u16 \<Rightarrow> u8 \<Rightarrow> demo_dev \<Rightarrow> int \<times> demo_dev" where
  "demo_write_coil a b d = (if a < 100 then (0, d\<lparr>d_coils := (d_coils d)(a := b)\<rparr>) else (- 2, d))"

definition demo_read_hold :: "u16 \<Rightarrow> demo_dev \<Rightarrow> int \<times> u16 \<times> demo_dev" where
  "demo_read_hold a d = (if a < 100 then (0, d_regs d a, d) else (- 2, 0, d))"

definition demo_write_hold :: "u16 \<Rightarrow> u16 \<Rightarrow> demo_dev \<Rightarrow> int \<times> demo_dev" where
  "demo_write_hold a v d = (if a < 100 then (0, d\<lparr>d_regs := (d_regs d)(a := v)\<rparr>) else (- 2, d))"

definition demo_cb :: "demo_dev mb_cb_table" where
  "demo_cb =
     \<lparr>read_disc = None, read_coil = Some demo_read_coil, write_coil = Some demo_write_coil,
      read_input = None, read_hold = Some demo_read_hold, write_hold = Some demo_write_hold\<rparr>"

definition demo_dev0 :: demo_dev where
  "demo_dev0 = \<lparr>d_regs = (\<lambda>a. 0x0012), d_coils = (\<lambda>a. 0)\<rparr>"

definition demo_slave :: "demo_dev mb_slave" where
  "demo_slave =
     \<lparr>prototype = MB_PROT_RTU, saddr = 1, tsid = 0, tid = 0, datas = (\<lambda>i. 0),
      cb = Some demo_cb, dev = demo_dev0, cb_log = [], sent = []\<rparr>"

definition pdu0 :: mb_pdu where
  "pdu0 =
     \<lparr>fc = 0, exc_ec = 0, rd_req_addr = 0, rd_req_nb = 0, rd_rsp_dlen = 0,
      rd_rsp_pdata = (\<lambda>i. 0), wr_single_addr = 0, wr_single_val = 0, wr_req_addr = 0,
      wr_req_nb = 0, wr_req_dlen = 0, wr_req_pdata = (\<lambda>i. 0),
      mask_wr_addr = 0, mask_wr_val_and = 0, mask_wr_val_or = 0, wr_rd_req_rd_addr = 0,
      wr_rd_req_rd_nb = 0, wr_rd_req_wr_addr = 0, wr_rd_req_wr_nb = 0, wr_rd_req_dlen = 0,
      wr_rd_req_pdata = (\<lambda>i. 0)\<rparr>"

text \<open>
  Build options, the contents of an uninitialised frame variable (here zeros), and two
  RTU frames with the request "write single register 4 := 0x00FF": one addressed to
  slave 0 (broadcast), one to slave 1.
\<close>

definition cfg_all :: mb_cfg where
  "cfg_all =
     \<lparr>MB_USING_ADDR_CHK = True, MB_USING_MBAP_CHK = True,
      MB_USING_RTU_PROTOCOL = True, MB_USING_TCP_PROTOCOL = True\<rparr>"

definition rtu_frm_init :: mb_rtu_frm where
  "rtu_frm_init = \<lparr>rtu_saddr = 0, rtu_pdu = pdu0\<rparr>"

definition tcp_frm_init :: mb_tcp_frm where
  "tcp_frm_init =
     \<lparr>mbap = \<lparr>mbap_tid = 0, mbap_pid = 0, mbap_dlen = 0, mbap_did = 0\<rparr>, tcp_pdu = pdu0\<rparr>"

definition bcast_write_frame :: "u8 list" where
  "bcast_write_frame = [0x00, 0x06, 0x00, 0x04, 0x00, 0xFF, 0x89, 0x9A]"

definition own_write_frame :: "u8 list" where
  "own_write_frame = [0x01, 0x06, 0x00, 0x04, 0x00, 0xFF, 0x88, 0x4B]"

text \<open>
  A TCP master with unit identifier 0x11 whose counter \<open>tsid\<close> and field \<open>tid\<close> are 0, as
  after creation; an RTU master for slave 1; build options without the MBAP check;
  an outside in which \<open>modbus_send\<close> sends the whole frame and \<open>modbus_recv\<close> delivers
  the bytes \<open>rx\<close>.
\<close>

definition tcp_master :: mb_inst where
  "tcp_master = \<lparr>prototype = MB_PROT_TCP, saddr = 0x11, tsid = 0, tid = 0, datas = (\<lambda>i. 0)\<rparr>"

definition rtu_master :: mb_inst where
  "rtu_master = \<lparr>prototype = MB_PROT_RTU, saddr = 0x01, tsid = 0, tid = 0, datas = (\<lambda>i. 0)\<rparr>"

definition cfg_no_mbap :: mb_cfg where
  "cfg_no_mbap =
     \<lparr>MB_USING_ADDR_CHK = True, MB_USING_MBAP_CHK = False,
      MB_USING_RTU_PROTOCOL = True, MB_USING_TCP_PROTOCOL = True\<rparr>"

definition env_rx :: "u8 list \<Rightarrow> mb_env" where
  "env_rx rx =
     \<lparr>modbus_send = (\<lambda>frame. int (length frame)),
      modbus_recv = (int (length rx), buf_of rx),
      rtu_frm0 = rtu_frm_init, tcp_frm0 = tcp_frm_init\<rparr>"

text \<open>
  Scenario 4 of the spec: the response to "read 2 holding registers at 0" with
  transaction identifier 1 and unit identifier 0x11, carrying 0x1234 and 0x5678.
\<close>

definition tcp_read_response :: "u8 list" where
  "tcp_read_response =
     [0x00, 0x01, 0x00, 0x00, 0x00, 0x07, 0x11, 0x03, 0x04, 0x12, 0x34, 0x56, 0x78]"

text \<open>
  A response like that of scenario 4 whose transaction identifier is 0, not the 1 of
  the request; and a TCP frame with transaction identifier 0 and length field 1 whose
  PDU, two bytes of a "write single register" response, is too short.
\<close>

definition tcp_stale_response :: "u8 list" where
  "tcp_stale_response =
     [0x00, 0x00, 0x00, 0x00, 0x00, 0x07, 0x11, 0x03, 0x04, 0x12, 0x34, 0x56, 0x78]"

definition tcp_malformed_response :: "u8 list" where
  "tcp_malformed_response = [0x00, 0x00, 0x00, 0x00, 0x00, 0x01, 0x11, 0x06, 0x00]"

text \<open>Five bytes, fewer than any TCP frame has.\<close>

definition short_response :: "u8 list" where
  "short_response = [0x00, 0x01, 0x00, 0x00, 0x00]"

text \<open>An RTU response from slave 1 to "read coils" that carries one byte of coils.\<close>

definition rtu_coils_response :: "u8 list" where
  "rtu_coils_response = [0x01, 0x01, 0x01, 0x55, 0x91, 0xB7]"

text \<open>The same for "read discrete inputs".\<close>

definition rtu_inputs_response :: "u8 list" where
  "rtu_inputs_response = [0x01, 0x02, 0x01, 0x55, 0x61, 0xB7]"

text \<open>
  An open backend with the default timeouts (300 ms and 32 ms), and polls of the
  receive loop: at clock reading \<open>t\<close> the port has the bytes \<open>bs\<close> to deliver, of which
  a read takes as many as the size it is given allows; \<open>poll_idle t\<close> has none.
\<close>

definition demo_backend :: mb_backend where
  "demo_backend =
     \<lparr>bk_hinst = Some 1, ops = Some \<lparr>ops_read = True\<rparr>, ack_tmo_ms = 300, byte_tmo_ms = 32\<rparr>"

definition poll_data :: "u8 list \<Rightarrow> int \<Rightarrow> mb_poll" where
  "poll_data bs t =
     \<lparr>port_read = (\<lambda>size. (min size (int (length bs)), take (nat size) bs)), now_ms = t\<rparr>"

definition poll_idle :: "int \<Rightarrow> mb_poll" where
  "poll_idle t = poll_data [] t"

text \<open>
  A call that receives two chunks, of 3 and of 2 bytes, 9 ms apart.
\<close>

definition demo_segments :: "mb_segment list" where
  "demo_segments =
     [\<lparr>seg_idle = [poll_idle 1002], seg_chunk = poll_data [0x01, 0x03, 0x00] 1004,
       seg_bytes = [0x01, 0x03, 0x00]\<rparr>,
      \<lparr>seg_idle = [poll_idle 1010], seg_chunk = poll_data [0x6B, 0x00] 1013,
       seg_bytes = [0x6B, 0x00]\<rparr>]"





section \<open>Constants\<close>

lemmas fc_defs =
  MODBUS_FC_READ_COILS_def MODBUS_FC_READ_DISCRETE_INPUTS_def
  MODBUS_FC_READ_HOLDING_REGISTERS_def MODBUS_FC_READ_INPUT_REGISTERS_def
  MODBUS_FC_WRITE_SINGLE_COIL_def MODBUS_FC_WRITE_SINGLE_REGISTER_def
  MODBUS_FC_READ_EXCEPTION_STATUS_def MODBUS_FC_WRITE_MULTIPLE_COILS_def
  MODBUS_FC_WRITE_MULTIPLE_REGISTERS_def MODBUS_FC_REPORT_SLAVE_ID_def
  MODBUS_FC_MASK_WRITE_REGISTER_def MODBUS_FC_WRITE_AND_READ_REGISTERS_def

lemmas ec_defs =
  MODBUS_EC_ILLEGAL_FUNCTION_def MODBUS_EC_ILLEGAL_DATA_ADDRESS_def
  MODBUS_EC_ILLEGAL_DATA_VALUE_def MODBUS_EC_SLAVE_OR_SERVER_FAILURE_def

lemmas demo_defs =
  demo_slave_def demo_cb_def demo_dev0_def demo_read_coil_def demo_write_coil_def
  demo_read_hold_def demo_write_hold_def pdu0_def

subsection \<open>Evaluation\<close>

lemma bytes_of_0: "bytes_of p 0 = []"
  by (simp add: bytes_of_def)

lemma bytes_of_Suc: "bytes_of p (Suc n) = p 0 # bytes_of (ptr_add p 1) n"
  by (simp add: bytes_of_def ptr_add_def upt_conv_Cons map_Suc_upt [symmetric] del: upt_Suc)

lemma bytes_of_numeral:
  "bytes_of p (numeral n) = p 0 # bytes_of (ptr_add p 1) (pred_numeral n)"
  by (simp add: numeral_eq_Suc bytes_of_Suc)

lemma regs_of_0: "regs_of p 0 = []"
  by (simp add: regs_of_def)

lemma regs_of_Suc: "regs_of p (Suc n) = modbus_cvt_u16_get p # regs_of (ptr_add p 2) n"
proof -
  have "map (\<lambda>i. modbus_cvt_u16_get (ptr_add p (2 * i))) [0..<Suc n] =
        modbus_cvt_u16_get (ptr_add p 0) # map (\<lambda>i. modbus_cvt_u16_get (ptr_add p (2 * Suc i))) [0..<n]"
    by (simp add: upt_conv_Cons map_Suc_upt [symmetric] del: upt_Suc)
  moreover have "ptr_add p 0 = p" by (simp add: ptr_add_def)
  moreover have "\<And>i. ptr_add p (2 * Suc i) = ptr_add (ptr_add p 2) (2 * i)"
    by (simp add: ptr_add_def fun_eq_iff add.commute add.left_commute)
  ultimately show ?thesis by (simp add: regs_of_def)
qed

lemma regs_of_numeral:
  "regs_of p (numeral n) = modbus_cvt_u16_get p # regs_of (ptr_add p 2) (pred_numeral n)"
  by (simp add: numeral_eq_Suc regs_of_Suc)

lemmas codec_defs =
  spec_ext_def spec_rtu_frame_parse_def spec_rtu_frame_make_def spec_pdu_parse_def
  spec_pdu_make_def modbus_crc_cal_def modbus_crc_cyc_cal_def crc_byte_def crc_shift_def
  MB_CRC_INIT_VOL_def buf_of_def bytes_of_0 bytes_of_Suc bytes_of_numeral ptr_add_def
  modbus_cvt_u16_get_def modbus_cvt_u16_put_def modbus_cvt_u8_put_def MODBUS_FC_EXCEPT_CHK_def

lemmas tcp_defs =
  modbus_tcp_frm_make_def modbus_tcp_frm_parse_def MB_TCP_FRM_MIN_def MB_TCP_MBAP_SIZE_def
  MB_TCP_MBAP_PID_def

lemmas example_defs =
  tcp_master_def rtu_master_def cfg_all_def cfg_no_mbap_def env_rx_def rtu_frm_init_def
  tcp_frm_init_def pdu0_def

lemmas crc_defs = modbus_crc_cal_def modbus_crc_cyc_cal_def crc_byte_def crc_shift_def
  MB_CRC_INIT_VOL_def

lemma u16_and_ffff: "(cur::u16) AND 0xFFFF = cur"
proof -
  have "(0xFFFF::u16) = - 1" by simp
  then show ?thesis by (simp only: and.right_neutral)
qed

section \<open>Mask write (0x16)\<close>

text \<open>
  C6. When both holding-register callbacks are registered and \<open>read_hold\<close> succeeds
  with the current value \<open>cur\<close>, the mask-write handler calls \<open>read_hold\<close> once and then
  \<open>write_hold\<close> once, at the request's address, writing
  \<open>new = (cur AND and_mask) OR (or_mask AND NOT and_mask)\<close>. With \<open>and_mask = 0xFFFF\<close> and
  \<open>or_mask = 0\<close> the value written is the value read; with \<open>and_mask = 0\<close> it is
  \<open>or_mask\<close>.
\<close>

theorem mask_write_value:
  assumes "cb hinst = Some t" and "read_hold t = Some rh" and "write_hold t = Some wh"
    and "rh (mask_wr_addr pdu) (dev hinst) = (rst, cur, d1)" and "0 \<le> rst"
    and "new = (cur AND mask_wr_val_and pdu) OR (mask_wr_val_or pdu AND NOT (mask_wr_val_and pdu))"
  shows "cb_log (fst (modbus_slave_pdu_deal_mask_write_reg hinst pdu)) =
           cb_log hinst @
             [Ev_read_hold (mask_wr_addr pdu) cur rst,
              Ev_write_hold (mask_wr_addr pdu) new (fst (wh (mask_wr_addr pdu) new d1))]
         \<and> dev (fst (modbus_slave_pdu_deal_mask_write_reg hinst pdu)) =
             snd (wh (mask_wr_addr pdu) new d1)
         \<and> (mask_wr_val_and pdu = 0xFFFF \<and> mask_wr_val_or pdu = 0 \<longrightarrow> new = cur)
         \<and> (mask_wr_val_and pdu = 0 \<longrightarrow> new = mask_wr_val_or pdu)"
  using assms
  by (auto simp: modbus_slave_pdu_deal_mask_write_reg_def call_rd16_def call_write_hold_def
        Let_def u16_and_ffff split: prod.splits)

theorem mask_write_value_witness:
  "cb_log (fst (modbus_slave_pdu_deal_mask_write_reg demo_slave
       (pdu0\<lparr>fc := 0x16, mask_wr_addr := 4, mask_wr_val_and := 0x00F2,
              mask_wr_val_or := 0x0025\<rparr>))) =
     [Ev_read_hold 4 0x0012 0, Ev_write_hold 4 0x0017 0]"
  using mask_write_value [of demo_slave demo_cb demo_read_hold demo_write_hold
      "pdu0\<lparr>fc := 0x16, mask_wr_addr := 4, mask_wr_val_and := 0x00F2, mask_wr_val_or := 0x0025\<rparr>"
      0 "0x0012" demo_dev0 "0x0017"]
  by (simp add: demo_defs)

section \<open>Write single coil (0x05)\<close>

text \<open>
  C8, as the claim states it, fails: with no callback table registered the handler
  answers a request whose value is 0x0100 with exception code 0x04, not 0x03.
\<close>

theorem write_coil_illegal_value_counterexample:
  "wr_single_val (pdu0\<lparr>fc := 0x05, wr_single_addr := 10, wr_single_val := 0x0100\<rparr>) \<noteq> 0x0000
   \<and> wr_single_val (pdu0\<lparr>fc := 0x05, wr_single_addr := 10, wr_single_val := 0x0100\<rparr>) \<noteq> 0xFF00
   \<and> exc_ec (snd (modbus_slave_pdu_deal (demo_slave\<lparr>cb := None\<rparr>)
         (pdu0\<lparr>fc := 0x05, wr_single_addr := 10, wr_single_val := 0x0100\<rparr>))) = 0x04"
  by (simp add: modbus_slave_pdu_deal_def modbus_slave_pdu_deal_write_coil_def pdu_exc_def
        fc_defs ec_defs demo_defs)

text \<open>
  C8, amended. A write-single-coil request (0x05) whose value is neither 0x0000 nor
  0xFF00 is answered with an exception response, the function code OR'd with 0x80, and
  leaves the instance as it was: no callback is called. The exception code is 0x03
  (illegal data value) when a \<open>write_coil\<close> callback is registered, and 0x04 when the
  callback table or its \<open>write_coil\<close> entry is missing.
\<close>

theorem write_coil_illegal_value:
  assumes "fc pdu = 0x05" and "wr_single_val pdu \<noteq> 0x0000" and "wr_single_val pdu \<noteq> 0xFF00"
  shows "modbus_slave_pdu_deal hinst pdu =
           (hinst,
            pdu\<lparr>exc_ec := (if \<exists>t wc. cb hinst = Some t \<and> write_coil t = Some wc
                             then 0x03 else 0x04),
                fc := 0x05 OR 0x80\<rparr>)"
  using assms
  by (auto simp: modbus_slave_pdu_deal_def modbus_slave_pdu_deal_write_coil_def pdu_exc_def
        MODBUS_FC_EXCEPT_MAKE_def fc_defs ec_defs Let_def split: option.splits)

theorem write_coil_illegal_value_witness:
  "modbus_slave_pdu_deal demo_slave
       (pdu0\<lparr>fc := 0x05, wr_single_addr := 10, wr_single_val := 0x0100\<rparr>) =
     (demo_slave,
      pdu0\<lparr>fc := 0x05, wr_single_addr := 10, wr_single_val := 0x0100, exc_ec := 0x03,
           fc := 0x85\<rparr>)"
  using write_coil_illegal_value [of "pdu0\<lparr>fc := 0x05, wr_single_addr := 10, wr_single_val := 0x0100\<rparr>"
      demo_slave]
  by (simp add: demo_defs)

section \<open>Write and read registers (0x17)\<close>
















section \<open>Slave receive path (RTU)\<close>

lemma sent_read_bits_loop:
  "sent (snd (read_bits_loop ev f addr i k h)) = sent h"
  by (induction k arbitrary: i h) (auto simp: call_rd8_def split: prod.splits)

lemma sent_read_regs_loop:
  "sent (snd (read_regs_loop ev f addr i k h)) = sent h"
  by (induction k arbitrary: i h) (auto simp: call_rd16_def split: prod.splits)

lemma sent_write_bits_loop:
  "sent (snd (write_bits_loop f addr p i k h)) = sent h"
  by (induction k arbitrary: i h) (auto simp: call_write_coil_def Let_def split: prod.splits)

lemma sent_write_regs_loop:
  "sent (snd (write_regs_loop f addr p i k h)) = sent h"
  by (induction k arbitrary: i h) (auto simp: call_write_hold_def Let_def split: prod.splits)

lemma sent_loop_eq:
  "read_bits_loop ev8 f8 addr i k h = (r, h') \<Longrightarrow> sent h' = sent h"
  "read_regs_loop ev16 f16 addr i k h = (r, h') \<Longrightarrow> sent h' = sent h"
  "write_bits_loop fc8 addr p i k h = (r, h') \<Longrightarrow> sent h' = sent h"
  "write_regs_loop fc16 addr p i k h = (r, h') \<Longrightarrow> sent h' = sent h"
  using sent_read_bits_loop [of ev8 f8 addr i k h] sent_read_regs_loop [of ev16 f16 addr i k h]
    sent_write_bits_loop [of fc8 addr p i k h] sent_write_regs_loop [of fc16 addr p i k h]
  by simp_all

lemma sent_read_coils: "sent (fst (modbus_slave_pdu_deal_read_coils hinst pdu)) = sent hinst"
  by (auto simp: modbus_slave_pdu_deal_read_coils_def call_rd16_def call_write_hold_def
      call_write_coil_def Let_def dest: sent_loop_eq split: option.splits prod.splits)

lemma sent_read_discs: "sent (fst (modbus_slave_pdu_deal_read_discs hinst pdu)) = sent hinst"
  by (auto simp: modbus_slave_pdu_deal_read_discs_def call_rd16_def call_write_hold_def
      call_write_coil_def Let_def dest: sent_loop_eq split: option.splits prod.splits)

lemma sent_read_holds: "sent (fst (modbus_slave_pdu_deal_read_holds hinst pdu)) = sent hinst"
  by (auto simp: modbus_slave_pdu_deal_read_holds_def call_rd16_def call_write_hold_def
      call_write_coil_def Let_def dest: sent_loop_eq split: option.splits prod.splits)

lemma sent_read_inputs: "sent (fst (modbus_slave_pdu_deal_read_inputs hinst pdu)) = sent hinst"
  by (auto simp: modbus_slave_pdu_deal_read_inputs_def call_rd16_def call_write_hold_def
      call_write_coil_def Let_def dest: sent_loop_eq split: option.splits prod.splits)

lemma sent_write_coil: "sent (fst (modbus_slave_pdu_deal_write_coil hinst pdu)) = sent hinst"
  by (auto simp: modbus_slave_pdu_deal_write_coil_def call_rd16_def call_write_hold_def
      call_write_coil_def Let_def dest: sent_loop_eq split: option.splits prod.splits)

lemma sent_write_reg: "sent (fst (modbus_slave_pdu_deal_write_reg hinst pdu)) = sent hinst"
  by (auto simp: modbus_slave_pdu_deal_write_reg_def call_rd16_def call_write_hold_def
      call_write_coil_def Let_def dest: sent_loop_eq split: option.splits prod.splits)

lemma sent_write_coils: "sent (fst (modbus_slave_pdu_deal_write_coils hinst pdu)) = sent hinst"
  by (auto simp: modbus_slave_pdu_deal_write_coils_def call_rd16_def call_write_hold_def
      call_write_coil_def Let_def dest: sent_loop_eq split: option.splits prod.splits)

lemma sent_write_regs: "sent (fst (modbus_slave_pdu_deal_write_regs hinst pdu)) = sent hinst"
  by (auto simp: modbus_slave_pdu_deal_write_regs_def call_rd16_def call_write_hold_def
      call_write_coil_def Let_def dest: sent_loop_eq split: option.splits prod.splits)

lemma sent_mask_write_reg: "sent (fst (modbus_slave_pdu_deal_mask_write_reg hinst pdu)) = sent hinst"
  by (auto simp: modbus_slave_pdu_deal_mask_write_reg_def call_rd16_def call_write_hold_def
      call_write_coil_def Let_def dest: sent_loop_eq split: option.splits prod.splits)

lemma sent_write_and_read_regs:
  "sent (fst (modbus_slave_pdu_deal_write_and_read_regs hinst pdu)) = sent hinst"
  by (auto simp: modbus_slave_pdu_deal_write_and_read_regs_def Let_def
      dest!: sent_loop_eq(2) sent_loop_eq(4) split: option.splits prod.splits)

lemma sent_pdu_deal: "sent (fst (modbus_slave_pdu_deal hinst pdu)) = sent hinst"
  by (simp add: modbus_slave_pdu_deal_def sent_read_coils sent_read_discs sent_read_holds sent_read_inputs sent_write_coil sent_write_reg sent_write_coils sent_write_regs sent_mask_write_reg sent_write_and_read_regs)


lemma bcast_parse:
  "spec_rtu_frame_parse (buf_of bcast_write_frame) 8 rtu_frm_init MB_PDU_TYPE_REQ =
     (5, \<lparr>rtu_saddr = 0, rtu_pdu = pdu0\<lparr>fc := 0x06, wr_single_addr := 4, wr_single_val := 0xFF\<rparr>\<rparr>)"
  by (simp add: codec_defs bcast_write_frame_def rtu_frm_init_def Let_def)


lemma own_parse:
  "spec_rtu_frame_parse (buf_of own_write_frame) 8 rtu_frm_init MB_PDU_TYPE_REQ =
     (5, \<lparr>rtu_saddr = 1, rtu_pdu = pdu0\<lparr>fc := 0x06, wr_single_addr := 4, wr_single_val := 0xFF\<rparr>\<rparr>)"
  by (simp add: codec_defs own_write_frame_def rtu_frm_init_def Let_def)

lemma write_reg_make:
  "spec_rtu_frame_make
     \<lparr>rtu_saddr = a, rtu_pdu = pdu0\<lparr>fc := 0x06, wr_single_addr := 4, wr_single_val := 0xFF\<rparr>\<rparr>
     MB_PDU_TYPE_RSP =
   [a, 0x06, 0x00, 0x04, 0x00, 0xFF] @
   [ucast (modbus_crc_cal [a, 0x06, 0x00, 0x04, 0x00, 0xFF]),
    ucast (drop_bit 8 (modbus_crc_cal [a, 0x06, 0x00, 0x04, 0x00, 0xFF]))]"
  by (simp add: spec_rtu_frame_make_def spec_pdu_make_def MODBUS_FC_EXCEPT_CHK_def
      modbus_cvt_u16_put_def pdu0_def Let_def)

lemma bcast_make:
  "spec_rtu_frame_make
     \<lparr>rtu_saddr = 0, rtu_pdu = pdu0\<lparr>fc := 0x06, wr_single_addr := 4, wr_single_val := 0xFF\<rparr>\<rparr>
     MB_PDU_TYPE_RSP = bcast_write_frame"
  by (simp add: write_reg_make crc_defs bcast_write_frame_def)

lemma own_make:
  "spec_rtu_frame_make
     \<lparr>rtu_saddr = 1, rtu_pdu = pdu0\<lparr>fc := 0x06, wr_single_addr := 4, wr_single_val := 0xFF\<rparr>\<rparr>
     MB_PDU_TYPE_RSP = own_write_frame"
  by (simp add: write_reg_make crc_defs own_write_frame_def)

text \<open>
  C4, as the claim states it, fails for the broadcast frame. The frame below is a
  well-formed RTU request addressed to slave 0. An instance whose address is 1 drops
  it: no callback is called and the device is unchanged, so the frame is not
  processed. An instance whose address is 0 processes it and does transmit a response.
\<close>

theorem slave_broadcast_counterexample:
  "fst (modbus_rtu_frame_parse spec_ext (buf_of bcast_write_frame) 8 rtu_frm_init MB_PDU_TYPE_REQ) = 5
   \<and> rtu_saddr (snd (modbus_rtu_frame_parse spec_ext (buf_of bcast_write_frame) 8 rtu_frm_init
         MB_PDU_TYPE_REQ)) = 0
   \<and> cb_log (modbus_slave_recv_deal_rtu cfg_all spec_ext rtu_frm_init demo_slave
         (buf_of bcast_write_frame) 8) = []
   \<and> dev (modbus_slave_recv_deal_rtu cfg_all spec_ext rtu_frm_init demo_slave
         (buf_of bcast_write_frame) 8) = demo_dev0
   \<and> sent (modbus_slave_recv_deal_rtu cfg_all spec_ext rtu_frm_init (demo_slave\<lparr>saddr := 0\<rparr>)
         (buf_of bcast_write_frame) 8) = [bcast_write_frame]"
  by (simp add: modbus_slave_recv_deal_rtu_def spec_ext_def bcast_parse cfg_all_def
      modbus_slave_pdu_deal_def modbus_slave_pdu_deal_write_reg_def call_write_hold_def
      slave_send_def bcast_make fc_defs demo_slave_def demo_cb_def demo_write_hold_def
      demo_dev0_def Let_def)

text \<open>
  C4, amended. With address checking enabled, an RTU request frame whose slave address
  differs from the address of the instance leaves the instance as it was: no handler
  is called and no response is sent; this includes the broadcast frame (address 0)
  received by an instance whose address is not 0. A frame that parses to a supported
  request and whose address is the address of the instance is dispatched to the
  handlers, and exactly one response frame, made from the PDU the handler left, is
  handed to \<open>modbus_send\<close>; this holds also when that address is 0.
\<close>

theorem slave_rtu_address_check:
  assumes chk: "MB_USING_ADDR_CHK cfg"
    and parse: "modbus_rtu_frame_parse ext buf len frm0 MB_PDU_TYPE_REQ = (pdu_len, frm)"
  shows "(rtu_saddr frm \<noteq> saddr hinst \<longrightarrow>
            modbus_slave_recv_deal_rtu cfg ext frm0 hinst buf len = hinst)
       \<and> (rtu_saddr frm = saddr hinst \<and> 0 < pdu_len \<longrightarrow>
            cb_log (modbus_slave_recv_deal_rtu cfg ext frm0 hinst buf len) =
              cb_log (fst (modbus_slave_pdu_deal hinst (rtu_pdu frm)))
          \<and> dev (modbus_slave_recv_deal_rtu cfg ext frm0 hinst buf len) =
              dev (fst (modbus_slave_pdu_deal hinst (rtu_pdu frm)))
          \<and> sent (modbus_slave_recv_deal_rtu cfg ext frm0 hinst buf len) =
              sent hinst @
                [modbus_rtu_frame_make ext
                   (frm\<lparr>rtu_pdu := snd (modbus_slave_pdu_deal hinst (rtu_pdu frm))\<rparr>)
                   MB_PDU_TYPE_RSP])"
proof (intro conjI impI)
  assume "rtu_saddr frm \<noteq> saddr hinst"
  with chk parse show "modbus_slave_recv_deal_rtu cfg ext frm0 hinst buf len = hinst"
    by (simp add: modbus_slave_recv_deal_rtu_def)
next
  assume a: "rtu_saddr frm = saddr hinst \<and> 0 < pdu_len"
  obtain h1 p1 where d: "modbus_slave_pdu_deal hinst (rtu_pdu frm) = (h1, p1)"
    by (cases "modbus_slave_pdu_deal hinst (rtu_pdu frm)")
  from a parse d have r: "modbus_slave_recv_deal_rtu cfg ext frm0 hinst buf len =
      slave_send (modbus_rtu_frame_make ext (frm\<lparr>rtu_pdu := p1\<rparr>) MB_PDU_TYPE_RSP) h1"
    by (simp add: modbus_slave_recv_deal_rtu_def)
  from d sent_pdu_deal [of hinst "rtu_pdu frm"] have s: "sent h1 = sent hinst"
    by simp
  show "cb_log (modbus_slave_recv_deal_rtu cfg ext frm0 hinst buf len) =
              cb_log (fst (modbus_slave_pdu_deal hinst (rtu_pdu frm)))"
    by (simp add: r d slave_send_def)
  show "dev (modbus_slave_recv_deal_rtu cfg ext frm0 hinst buf len) =
              dev (fst (modbus_slave_pdu_deal hinst (rtu_pdu frm)))"
    by (simp add: r d slave_send_def)
  show "sent (modbus_slave_recv_deal_rtu cfg ext frm0 hinst buf len) =
              sent hinst @
                [modbus_rtu_frame_make ext
                   (frm\<lparr>rtu_pdu := snd (modbus_slave_pdu_deal hinst (rtu_pdu frm))\<rparr>)
                   MB_PDU_TYPE_RSP]"
    by (simp add: r d s slave_send_def)
qed

theorem slave_rtu_address_check_witness:
  "modbus_slave_recv_deal_rtu cfg_all spec_ext rtu_frm_init demo_slave
       (buf_of bcast_write_frame) 8 = demo_slave
   \<and> cb_log (modbus_slave_recv_deal_rtu cfg_all spec_ext rtu_frm_init demo_slave
         (buf_of own_write_frame) 8) = [Ev_write_hold 4 0x00FF 0]
   \<and> sent (modbus_slave_recv_deal_rtu cfg_all spec_ext rtu_frm_init demo_slave
         (buf_of own_write_frame) 8) = [own_write_frame]"
  using slave_rtu_address_check [of cfg_all spec_ext "buf_of bcast_write_frame" 8 rtu_frm_init 5
      "\<lparr>rtu_saddr = 0, rtu_pdu = pdu0\<lparr>fc := 0x06, wr_single_addr := 4, wr_single_val := 0xFF\<rparr>\<rparr>"
      demo_slave]
    slave_rtu_address_check [of cfg_all spec_ext "buf_of own_write_frame" 8 rtu_frm_init 5
      "\<lparr>rtu_saddr = 1, rtu_pdu = pdu0\<lparr>fc := 0x06, wr_single_addr := 4, wr_single_val := 0xFF\<rparr>\<rparr>"
      demo_slave]
  by (simp add: spec_ext_def bcast_parse own_parse cfg_all_def
      modbus_slave_pdu_deal_def modbus_slave_pdu_deal_write_reg_def call_write_hold_def
      slave_send_def own_make fc_defs demo_slave_def demo_cb_def demo_write_hold_def
      demo_dev0_def Let_def)


section \<open>Master\<close>

subsection \<open>The MBAP check of the TCP operations\<close>

text \<open>
  C1: the code does not do what the claim says. The TCP operations send the
  incremented \<open>tsid\<close> as transaction identifier, but their MBAP check compares the
  identifier of the response with the field \<open>tid\<close>, which nothing updates. In scenario 4
  of the spec the master sends transaction identifier 1 and the response echoes it,
  with protocol identifier 0 and the right length; \<open>modbus_read_regs\<close> still returns 0,
  because \<open>tid\<close> is 0. The same call returns the 2 registers when the MBAP check is
  compiled out. And with the check, a response whose transaction identifier is 0, not
  the 1 that was sent, is accepted.
\<close>

theorem tcp_tid_check_rejects_echo:
  "tx (modbus_read_regs cfg_all spec_ext (env_rx tcp_read_response) tcp_master 0 2) =
     [0x00, 0x01, 0x00, 0x00, 0x00, 0x06, 0x11, 0x03, 0x00, 0x00, 0x00, 0x02]
   \<and> frame_tid tcp_read_response = 0x0001
   \<and> tsid (inst (modbus_read_regs cfg_all spec_ext (env_rx tcp_read_response) tcp_master 0 2)) = 1
   \<and> tid (inst (modbus_read_regs cfg_all spec_ext (env_rx tcp_read_response) tcp_master 0 2)) = 0
   \<and> ret (modbus_read_regs cfg_all spec_ext (env_rx tcp_read_response) tcp_master 0 2) = 0
   \<and> ret (modbus_read_regs cfg_no_mbap spec_ext (env_rx tcp_read_response) tcp_master 0 2) = 2
   \<and> out (modbus_read_regs cfg_no_mbap spec_ext (env_rx tcp_read_response) tcp_master 0 2) =
       [0x1234, 0x5678]
   \<and> frame_tid tcp_stale_response = 0x0000
   \<and> ret (modbus_read_regs cfg_all spec_ext (env_rx tcp_stale_response) tcp_master 0 2) = 2"
  by (simp add: modbus_read_regs_def modbus_read_req_def modbus_read_req_tcp_def tcp_defs
      codec_defs regs_of_0 regs_of_Suc regs_of_numeral store_at_def example_defs fc_defs
      frame_tid_def tcp_read_response_def tcp_stale_response_def Let_def)

subsection \<open>A response that does not parse\<close>

lemma short_response_tcp_parse:
  "modbus_tcp_frm_parse spec_ext (buf_of short_response) 5 frm MB_PDU_TYPE_RSP = (0, frm)"
  by (simp add: tcp_defs spec_ext_def)

lemma short_response_rtu_parse:
  "spec_rtu_frame_parse (buf_of short_response) 5 frm MB_PDU_TYPE_RSP = (0, frm)"
  by (simp add: spec_rtu_frame_parse_def crc_defs buf_of_def bytes_of_0 bytes_of_Suc
      bytes_of_numeral ptr_add_def short_response_def Let_def)

lemma length_short_response: "length short_response = 5"
  by (simp add: short_response_def)


lemma malformed_response_tcp_parse:
  "fst (modbus_tcp_frm_parse spec_ext (buf_of tcp_malformed_response) 9 frm MB_PDU_TYPE_RSP) = 0"
  by (simp add: tcp_defs spec_ext_def spec_pdu_parse_def buf_of_def ptr_add_def
      MODBUS_FC_EXCEPT_CHK_def tcp_malformed_response_def Let_def)

text \<open>
  The RTU operations return 0 whenever the parser does not return a positive length.
\<close>

lemma read_req_rtu_parse_failure:
  assumes "\<forall>frm. fst (modbus_rtu_frame_parse ext (snd (modbus_recv env)) (fst (modbus_recv env)) frm
             MB_PDU_TYPE_RSP) \<le> 0"
  shows "ret (modbus_read_req_rtu cfg ext env hinst func addr nb) = 0"
proof -
  have "\<And>frm pdu_len frm1. modbus_rtu_frame_parse ext (snd (modbus_recv env))
      (fst (modbus_recv env)) frm MB_PDU_TYPE_RSP = (pdu_len, frm1) \<Longrightarrow> pdu_len \<le> 0"
    using assms by (metis fst_conv)
  then show ?thesis
    by (auto simp: modbus_read_req_rtu_def Let_def split: prod.splits)
qed

lemma write_req_rtu_parse_failure:
  assumes "\<forall>frm. fst (modbus_rtu_frame_parse ext (snd (modbus_recv env)) (fst (modbus_recv env)) frm
             MB_PDU_TYPE_RSP) \<le> 0"
  shows "ret (modbus_write_req_rtu cfg ext env hinst func addr nb pdata dlen) = 0"
proof -
  have "\<And>frm pdu_len frm1. modbus_rtu_frame_parse ext (snd (modbus_recv env))
      (fst (modbus_recv env)) frm MB_PDU_TYPE_RSP = (pdu_len, frm1) \<Longrightarrow> pdu_len \<le> 0"
    using assms by (metis fst_conv)
  then show ?thesis
    by (auto simp: modbus_write_req_rtu_def Let_def split: prod.splits)
qed

lemma write_single_rtu_parse_failure:
  assumes "\<forall>frm. fst (modbus_rtu_frame_parse ext (snd (modbus_recv env)) (fst (modbus_recv env)) frm
             MB_PDU_TYPE_RSP) \<le> 0"
  shows "ret (modbus_write_single_rtu cfg ext env hinst func addr val) = 0"
proof -
  have "\<And>frm pdu_len frm1. modbus_rtu_frame_parse ext (snd (modbus_recv env))
      (fst (modbus_recv env)) frm MB_PDU_TYPE_RSP = (pdu_len, frm1) \<Longrightarrow> pdu_len \<le> 0"
    using assms by (metis fst_conv)
  then show ?thesis
    by (auto simp: modbus_write_single_rtu_def Let_def split: prod.splits)
qed

lemma mask_write_rtu_parse_failure:
  assumes "\<forall>frm. fst (modbus_rtu_frame_parse ext (snd (modbus_recv env)) (fst (modbus_recv env)) frm
             MB_PDU_TYPE_RSP) \<le> 0"
  shows "ret (modbus_mask_write_rtu cfg ext env hinst addr val_and val_or) = 0"
proof -
  have "\<And>frm pdu_len frm1. modbus_rtu_frame_parse ext (snd (modbus_recv env))
      (fst (modbus_recv env)) frm MB_PDU_TYPE_RSP = (pdu_len, frm1) \<Longrightarrow> pdu_len \<le> 0"
    using assms by (metis fst_conv)
  then show ?thesis
    by (auto simp: modbus_mask_write_rtu_def Let_def split: prod.splits)
qed

lemma write_and_read_regs_rtu_parse_failure:
  assumes "\<forall>frm. fst (modbus_rtu_frame_parse ext (snd (modbus_recv env)) (fst (modbus_recv env)) frm
             MB_PDU_TYPE_RSP) \<le> 0"
  shows "ret (modbus_write_and_read_regs_rtu cfg ext env hinst wr_addr wr_nb p_wr_regs rd_addr rd_nb) = 0"
proof -
  have "\<And>frm pdu_len frm1. modbus_rtu_frame_parse ext (snd (modbus_recv env))
      (fst (modbus_recv env)) frm MB_PDU_TYPE_RSP = (pdu_len, frm1) \<Longrightarrow> pdu_len \<le> 0"
    using assms by (metis fst_conv)
  then show ?thesis
    by (auto simp: modbus_write_and_read_regs_rtu_def Let_def split: prod.splits)
qed


text \<open>
  C3: the code does not do what the claim says on the TCP path. The RTU operations
  return 0 when the parse result is \<open>\<le> 0\<close>; the TCP operations test \<open>< 0\<close> only, and
  go on when the parser returns 0. A response of five bytes is shorter than any TCP
  frame, so \<open>modbus_tcp_frm_parse\<close> returns 0, yet, with the MBAP check compiled out,
  \<open>modbus_write_reg\<close> returns 1. On the RTU path the same bytes give 0. With the MBAP
  check compiled in, a frame whose PDU is too short to parse, with transaction
  identifier 0 and length field 1, is accepted in the same way.
\<close>

theorem tcp_parse_failure_not_rejected:
  "fst (modbus_tcp_frm_parse spec_ext (buf_of short_response) 5 tcp_frm_init MB_PDU_TYPE_RSP) = 0
   \<and> ret (modbus_write_reg cfg_no_mbap spec_ext (env_rx short_response) tcp_master 4 0x00FF) = 1
   \<and> fst (modbus_rtu_frame_parse spec_ext (buf_of short_response) 5 rtu_frm_init MB_PDU_TYPE_RSP) = 0
   \<and> ret (modbus_write_reg cfg_no_mbap spec_ext (env_rx short_response) rtu_master 4 0x00FF) = 0
   \<and> fst (modbus_tcp_frm_parse spec_ext (buf_of tcp_malformed_response) 9 tcp_frm_init
         MB_PDU_TYPE_RSP) = 0
   \<and> ret (modbus_write_reg cfg_all spec_ext (env_rx tcp_malformed_response) tcp_master 4 0x00FF) = 1"
proof -
  have tcp: "ret (modbus_write_reg cfg_no_mbap spec_ext (env_rx short_response) tcp_master 4 0x00FF) = 1"
    by (simp add: modbus_write_reg_def modbus_write_single_def modbus_write_single_tcp_def
        short_response_tcp_parse length_short_response example_defs fc_defs
        MODBUS_FC_EXCEPT_CHK_def Let_def)
  have rtu: "ret (modbus_write_reg cfg_no_mbap spec_ext (env_rx short_response) rtu_master 4 0x00FF) = 0"
    by (simp add: modbus_write_reg_def modbus_write_single_def modbus_write_single_rtu_def
        short_response_rtu_parse length_short_response spec_ext_def
        tcp_master_def rtu_master_def cfg_all_def cfg_no_mbap_def env_rx_def Let_def)
  have mal: "ret (modbus_write_reg cfg_all spec_ext (env_rx tcp_malformed_response) tcp_master 4 0x00FF) = 1"
    by (simp add: modbus_write_reg_def modbus_write_single_def modbus_write_single_tcp_def
        tcp_defs spec_ext_def spec_pdu_parse_def buf_of_def ptr_add_def modbus_cvt_u16_get_def
        tcp_malformed_response_def example_defs fc_defs MODBUS_FC_EXCEPT_CHK_def Let_def)
  show ?thesis
    by (simp add: tcp rtu mal short_response_tcp_parse malformed_response_tcp_parse)
      (simp add: short_response_rtu_parse spec_ext_def)
qed

subsection \<open>The value returned by the bit reads\<close>

lemma rtu_make_read_bits_16:
  "rtu_saddr frm = 1 \<Longrightarrow> fc (rtu_pdu frm) = c \<Longrightarrow> c = 1 \<or> c = 2 \<Longrightarrow>
   rd_req_addr (rtu_pdu frm) = 0 \<Longrightarrow> rd_req_nb (rtu_pdu frm) = 16 \<Longrightarrow>
   spec_rtu_frame_make frm MB_PDU_TYPE_REQ =
     [0x01, c, 0x00, 0x00, 0x00, 0x10] @
     [ucast (modbus_crc_cal [0x01, c, 0x00, 0x00, 0x00, 0x10]),
      ucast (drop_bit 8 (modbus_crc_cal [0x01, c, 0x00, 0x00, 0x00, 0x10]))]"
  by (auto simp add: spec_rtu_frame_make_def spec_pdu_make_def modbus_cvt_u16_put_def Let_def)

lemma crc_read_coils_16: "modbus_crc_cal [0x01, 0x01, 0x00, 0x00, 0x00, 0x10] = 0xC63D"
  by (simp add: crc_defs)

lemma crc_read_inputs_16: "modbus_crc_cal [0x01, 0x02, 0x00, 0x00, 0x00, 0x10] = 0xC679"
  by (simp add: crc_defs)

lemma rtu_coils_response_parse:
  "spec_rtu_frame_parse (buf_of rtu_coils_response) 6 frm MB_PDU_TYPE_RSP =
     (3, frm\<lparr>rtu_saddr := 1,
             rtu_pdu := (rtu_pdu frm)\<lparr>fc := 1, rd_rsp_dlen := 1,
                          rd_rsp_pdata := ptr_add (ptr_add (buf_of rtu_coils_response) 1) 2\<rparr>\<rparr>)"
  by (simp add: spec_rtu_frame_parse_def spec_pdu_parse_def crc_defs buf_of_def bytes_of_0
      bytes_of_Suc bytes_of_numeral MODBUS_FC_EXCEPT_CHK_def ptr_add_def
      rtu_coils_response_def Let_def)

lemma rtu_inputs_response_parse:
  "spec_rtu_frame_parse (buf_of rtu_inputs_response) 6 frm MB_PDU_TYPE_RSP =
     (3, frm\<lparr>rtu_saddr := 1,
             rtu_pdu := (rtu_pdu frm)\<lparr>fc := 2, rd_rsp_dlen := 1,
                          rd_rsp_pdata := ptr_add (ptr_add (buf_of rtu_inputs_response) 1) 2\<rparr>\<rparr>)"
  by (simp add: spec_rtu_frame_parse_def spec_pdu_parse_def crc_defs buf_of_def bytes_of_0
      bytes_of_Suc bytes_of_numeral MODBUS_FC_EXCEPT_CHK_def ptr_add_def
      rtu_inputs_response_def Let_def)

lemma length_responses: "length rtu_coils_response = 6" "length rtu_inputs_response = 6"
  by (simp_all add: rtu_coils_response_def rtu_inputs_response_def)

lemma coils_payload:
  "bytes_of (ptr_add (ptr_add (buf_of rtu_coils_response) (Suc 0)) 2) (Suc 0) = [0x55]"
  "bytes_of (ptr_add (ptr_add (buf_of rtu_inputs_response) (Suc 0)) 2) (Suc 0) = [0x55]"
  by (simp_all add: bytes_of_0 bytes_of_Suc ptr_add_def buf_of_def rtu_coils_response_def
      rtu_inputs_response_def)


text \<open>
  C7: the code does not do what the claim says. When the response carries a byte count
  other than \<open>(nb + 7) / 8\<close>, \<open>modbus_read_bits\<close> and \<open>modbus_read_input_bits\<close> return
  that byte count. A request for 16 coils answered with one byte of coils returns 1.
\<close>

theorem read_bits_returns_byte_count:
  "tx (modbus_read_bits cfg_all spec_ext (env_rx rtu_coils_response) rtu_master 0 16) =
     [0x01, 0x01, 0x00, 0x00, 0x00, 0x10, 0x3D, 0xC6]
   \<and> ret (modbus_read_bits cfg_all spec_ext (env_rx rtu_coils_response) rtu_master 0 16) = 1
   \<and> out (modbus_read_bits cfg_all spec_ext (env_rx rtu_coils_response) rtu_master 0 16) = [0x55]
   \<and> ret (modbus_read_input_bits cfg_all spec_ext (env_rx rtu_inputs_response) rtu_master 0 16) = 1"
  by (simp add: modbus_read_bits_def modbus_read_input_bits_def modbus_read_req_def
      modbus_read_req_rtu_def spec_ext_def example_defs fc_defs rtu_make_read_bits_16
      crc_read_coils_16 crc_read_inputs_16 rtu_coils_response_parse rtu_inputs_response_parse
      length_responses coils_payload MODBUS_FC_EXCEPT_CHK_def Let_def)

subsection \<open>Transaction identifiers\<close>

lemma u16_get_put: "push_bit 8 (ucast (ucast (drop_bit 8 v :: u16) :: u8)) OR ucast (ucast v :: u8) = (v :: u16)"
  by (rule bit_word_eqI) (auto simp: bit_simps)

lemma frame_tid_put: "frame_tid (modbus_cvt_u16_put v @ rest) = v"
  by (simp add: frame_tid_def modbus_cvt_u16_get_def modbus_cvt_u16_put_def buf_of_def u16_get_put)

lemma frame_tid_make: "frame_tid (modbus_tcp_frm_make ext frm type) = mbap_tid (mbap frm)"
  by (simp add: modbus_tcp_frm_make_def Let_def frame_tid_put)

lemma read_req_tcp_tid:
  "tsid (inst (modbus_read_req_tcp cfg ext env hinst func addr nb)) = tsid hinst + 1
   \<and> frame_tid (tx (modbus_read_req_tcp cfg ext env hinst func addr nb)) = tsid hinst + 1"
  by (simp add: modbus_read_req_tcp_def Let_def frame_tid_make split: prod.splits)

lemma write_req_tcp_tid:
  "tsid (inst (modbus_write_req_tcp cfg ext env hinst func addr nb pdata dlen)) = tsid hinst + 1
   \<and> frame_tid (tx (modbus_write_req_tcp cfg ext env hinst func addr nb pdata dlen)) = tsid hinst + 1"
  by (simp add: modbus_write_req_tcp_def Let_def frame_tid_make split: prod.splits)

lemma write_single_tcp_tid:
  "tsid (inst (modbus_write_single_tcp cfg ext env hinst func addr val)) = tsid hinst + 1
   \<and> frame_tid (tx (modbus_write_single_tcp cfg ext env hinst func addr val)) = tsid hinst + 1"
  by (simp add: modbus_write_single_tcp_def Let_def frame_tid_make split: prod.splits)

lemma mask_write_tcp_tid:
  "tsid (inst (modbus_mask_write_tcp cfg ext env hinst addr a b)) = tsid hinst + 1
   \<and> frame_tid (tx (modbus_mask_write_tcp cfg ext env hinst addr a b)) = tsid hinst + 1"
  by (simp add: modbus_mask_write_tcp_def Let_def frame_tid_make split: prod.splits)

lemma write_and_read_regs_tcp_tid:
  "tsid (inst (modbus_write_and_read_regs_tcp cfg ext env hinst wa wn pw ra rn)) = tsid hinst + 1
   \<and> frame_tid (tx (modbus_write_and_read_regs_tcp cfg ext env hinst wa wn pw ra rn)) = tsid hinst + 1"
  by (simp add: modbus_write_and_read_regs_tcp_def Let_def frame_tid_make split: prod.splits)

lemma tcp_transaction_tid:
  "tsid (fst (tcp_transaction cfg ext env hinst call)) = tsid hinst + 1
   \<and> frame_tid (snd (tcp_transaction cfg ext env hinst call)) = tsid hinst + 1"
  by (cases call)
    (simp_all add: Let_def read_req_tcp_tid write_req_tcp_tid write_single_tcp_tid
      mask_write_tcp_tid write_and_read_regs_tcp_tid)

text \<open>
  C9. Every TCP transaction adds one to the counter \<open>tsid\<close> (a 16-bit word, so the
  addition wraps) and hands to \<open>modbus_send\<close> a frame whose transaction identifier is
  the new counter value. So the identifiers sent by successive transactions of one
  instance that starts with counter \<open>t\<close> are \<open>t + 1\<close>, \<open>t + 2\<close>, ... modulo \<open>2^16\<close>, and
  after \<open>n\<close> transactions the counter is \<open>t + n\<close>.
\<close>

theorem tcp_tid_sequence:
  "map frame_tid (fst (tcp_transactions cfg ext hinst calls)) =
     map (\<lambda>k. tsid hinst + of_nat (Suc k)) [0..<length calls]
   \<and> tsid (snd (tcp_transactions cfg ext hinst calls)) = tsid hinst + of_nat (length calls)"
proof (induction calls arbitrary: hinst)
  case Nil
  show ?case by simp
next
  case (Cons c calls)
  obtain env call where c: "c = (env, call)" by (cases c)
  obtain h1 frame where t: "tcp_transaction cfg ext env hinst call = (h1, frame)"
    by (cases "tcp_transaction cfg ext env hinst call")
  from tcp_transaction_tid [of cfg ext env hinst call] t
  have h1: "tsid h1 = tsid hinst + 1" and fr: "frame_tid frame = tsid hinst + 1"
    by simp_all
  obtain frames h2 where r: "tcp_transactions cfg ext h1 calls = (frames, h2)"
    by (cases "tcp_transactions cfg ext h1 calls")
  from Cons.IH [of h1] r
  have ih: "map frame_tid frames = map (\<lambda>k. tsid h1 + of_nat (Suc k)) [0..<length calls]"
    "tsid h2 = tsid h1 + of_nat (length calls)"
    by simp_all
  have "map (\<lambda>k. tsid hinst + of_nat (Suc k)) [0..<length (c # calls)] =
        (tsid hinst + 1) # map (\<lambda>k. tsid hinst + of_nat (Suc (Suc k))) [0..<length calls]"
    by (simp add: upt_conv_Cons map_Suc_upt [symmetric] del: upt_Suc)
  also have "\<dots> = frame_tid frame # map frame_tid frames"
    by (simp add: fr ih(1) h1 add.assoc)
  finally show ?case
    by (simp add: c t r ih(2) h1 add.assoc)
qed


section \<open>Transport backend\<close>

subsection \<open>The two timeouts\<close>

lemma loop_idle:
  "pos < bufsize \<Longrightarrow>
   \<forall>q\<in>set idle. fst (port_read q (bufsize - pos)) = 0
      \<and> elapsed_ms (now_ms q) told \<le> (if pos \<noteq> 0 then byte_tmo_ms b else ack_tmo_ms b) \<Longrightarrow>
   backend_read_loop b bufsize (idle @ rest) pos told buf =
     backend_read_loop b bufsize rest pos told buf"
  by (induction idle) (auto simp: Let_def split: prod.splits)

lemma loop_timeout:
  "pos < bufsize \<Longrightarrow> fst (port_read p (bufsize - pos)) = 0 \<Longrightarrow>
   (if pos \<noteq> 0 then byte_tmo_ms b else ack_tmo_ms b) < elapsed_ms (now_ms p) told \<Longrightarrow>
   backend_read_loop b bufsize (p # rest) pos told buf = Some (pos, buf)"
  by (auto simp: Let_def split: prod.splits)

lemma loop_chunk:
  "pos < bufsize \<Longrightarrow> port_read p (bufsize - pos) = (len, bs) \<Longrightarrow> 0 < len \<Longrightarrow>
   backend_read_loop b bufsize (p # rest) pos told buf =
     backend_read_loop b bufsize rest (pos + len) (now_ms p) (store_at buf (nat pos) bs)"
  by simp

lemma backend_read_open:
  "bk_hinst b = Some h \<Longrightarrow> ops b = Some tbl \<Longrightarrow> ops_read tbl \<Longrightarrow> 0 < bufsize \<Longrightarrow>
   modbus_backend_read (Some b) (Some buf) bufsize t0 polls =
     map_option (\<lambda>(r, bf1). (r, Some bf1)) (backend_read_loop b bufsize polls 0 t0 buf)"
  by (simp add: modbus_backend_read_def)

text \<open>The \<open>tmo_ms\<close> of the code is the clock difference whenever that fits in 32 bits.\<close>

lemma elapsed_ms_in_range:
  "- (2 ^ 31) \<le> now - told \<Longrightarrow> now - told < 2 ^ 31 \<Longrightarrow> elapsed_ms now told = now - told"
proof -
  assume "- (2 ^ 31) \<le> now - told" and "now - told < 2 ^ 31"
  then have "signed_take_bit (LENGTH(32) - 1) (now - told) = now - told"
    by (intro signed_take_bit_int_eq_self) simp_all
  then show ?thesis
    unfolding elapsed_ms_def sint_sbintrunc' .
qed


lemma store_at_Nil: "store_at p k [] = p"
  by (auto simp: store_at_def fun_eq_iff)

lemma store_at_append:
  "store_at (store_at p 0 xs) (length xs) ys = store_at p 0 (xs @ ys)"
  by (auto simp: store_at_def nth_append fun_eq_iff)

lemma received_0: "received segs 0 = 0"
  by (simp add: received_def)

lemma received_snoc:
  "k \<le> length segs \<Longrightarrow> received (segs @ [s]) k = received segs k"
  by (simp add: received_def)

lemma received_Suc:
  "received (segs @ [s]) (Suc (length segs)) = received segs (length segs) + int (length (seg_bytes s))"
  by (simp add: received_def)

lemma received_pos:
  "\<forall>k<length segs. seg_bytes (segs ! k) \<noteq> [] \<Longrightarrow> 0 < k \<Longrightarrow> k \<le> length segs \<Longrightarrow>
   0 < received segs k"
proof -
  assume a: "\<forall>k<length segs. seg_bytes (segs ! k) \<noteq> []" and k: "0 < k" "k \<le> length segs"
  then obtain s rest where segs: "segs = s # rest" by (cases segs) auto
  obtain k' where k': "k = Suc k'" using k by (cases k) auto
  from a segs have "seg_bytes s \<noteq> []" by auto
  then have "0 < int (length (seg_bytes s))" by simp
  moreover have "received segs k =
      int (length (seg_bytes s)) + int (length (concat (map seg_bytes (take k' rest))))"
    by (simp add: received_def segs k')
  ultimately show ?thesis by linarith
qed

lemma loop_script:
  assumes size: "0 < bufsize"
    and chunks: "\<forall>k<length segs.
        (\<forall>q\<in>set (seg_idle (segs ! k)).
            fst (port_read q (bufsize - received segs k)) = 0
          \<and> elapsed_ms (now_ms q) (last_ms t0 segs k) \<le> tmo_in_force b k)
      \<and> port_read (seg_chunk (segs ! k)) (bufsize - received segs k) =
          (int (length (seg_bytes (segs ! k))), seg_bytes (segs ! k))
      \<and> seg_bytes (segs ! k) \<noteq> []
      \<and> received segs (Suc k) < bufsize"
  shows "backend_read_loop b bufsize (script segs @ rest) 0 t0 buf =
         backend_read_loop b bufsize rest (received segs (length segs))
           (last_ms t0 segs (length segs)) (store_at buf 0 (concat (map seg_bytes segs)))"
  using chunks
proof (induction segs arbitrary: rest rule: rev_induct)
  case Nil
  show ?case by (simp add: script_def received_def last_ms_def store_at_Nil)
next
  case (snoc s segs)
  let ?n = "length segs"
  let ?pos = "received segs ?n"
  let ?told = "last_ms t0 segs ?n"
  let ?bf = "store_at buf 0 (concat (map seg_bytes segs))"
  have prev: "\<forall>k<length segs.
        (\<forall>q\<in>set (seg_idle (segs ! k)).
            fst (port_read q (bufsize - received segs k)) = 0
          \<and> elapsed_ms (now_ms q) (last_ms t0 segs k) \<le> tmo_in_force b k)
      \<and> port_read (seg_chunk (segs ! k)) (bufsize - received segs k) =
          (int (length (seg_bytes (segs ! k))), seg_bytes (segs ! k))
      \<and> seg_bytes (segs ! k) \<noteq> []
      \<and> received segs (Suc k) < bufsize"
  proof (intro allI impI)
    fix k assume k: "k < length segs"
    with snoc.prems have "(\<forall>q\<in>set (seg_idle ((segs @ [s]) ! k)).
            fst (port_read q (bufsize - received (segs @ [s]) k)) = 0
          \<and> elapsed_ms (now_ms q) (last_ms t0 (segs @ [s]) k) \<le> tmo_in_force b k)
      \<and> port_read (seg_chunk ((segs @ [s]) ! k)) (bufsize - received (segs @ [s]) k) =
          (int (length (seg_bytes ((segs @ [s]) ! k))), seg_bytes ((segs @ [s]) ! k))
      \<and> seg_bytes ((segs @ [s]) ! k) \<noteq> []
      \<and> received (segs @ [s]) (Suc k) < bufsize"
      by simp
    moreover have "last_ms t0 (segs @ [s]) k = last_ms t0 segs k"
      using k by (cases k) (simp_all add: last_ms_def nth_append)
    ultimately show "(\<forall>q\<in>set (seg_idle (segs ! k)).
            fst (port_read q (bufsize - received segs k)) = 0
          \<and> elapsed_ms (now_ms q) (last_ms t0 segs k) \<le> tmo_in_force b k)
      \<and> port_read (seg_chunk (segs ! k)) (bufsize - received segs k) =
          (int (length (seg_bytes (segs ! k))), seg_bytes (segs ! k))
      \<and> seg_bytes (segs ! k) \<noteq> []
      \<and> received segs (Suc k) < bufsize"
      using k by (simp add: received_snoc nth_append)
  qed
  have last: "(\<forall>q\<in>set (seg_idle s).
            fst (port_read q (bufsize - ?pos)) = 0
          \<and> elapsed_ms (now_ms q) (last_ms t0 (segs @ [s]) ?n) \<le> tmo_in_force b ?n)"
     "port_read (seg_chunk s) (bufsize - ?pos) = (int (length (seg_bytes s)), seg_bytes s)"
     "seg_bytes s \<noteq> []"
     "?pos + int (length (seg_bytes s)) < bufsize"
    using snoc.prems [rule_format, of ?n] by (simp_all add: received_snoc received_Suc)
  have told: "last_ms t0 (segs @ [s]) ?n = ?told"
    by (simp add: last_ms_def nth_append)
  have nonempty: "\<forall>k<length segs. seg_bytes (segs ! k) \<noteq> []"
    using prev by simp
  have pos0: "?pos = 0 \<longleftrightarrow> ?n = 0"
    using received_pos [OF nonempty, of ?n] by (cases "?n = 0") (simp_all add: received_def)
  have pos_lt: "?pos < bufsize"
    using last(4) by simp
  have pos_nat: "nat ?pos = length (concat (map seg_bytes segs))"
    by (simp add: received_def)
  have "backend_read_loop b bufsize (script (segs @ [s]) @ rest) 0 t0 buf =
        backend_read_loop b bufsize (script segs @ (seg_idle s @ seg_chunk s # rest)) 0 t0 buf"
    by (simp add: script_def)
  also have "\<dots> = backend_read_loop b bufsize (seg_idle s @ seg_chunk s # rest) ?pos ?told ?bf"
    by (rule snoc.IH [OF prev])
  also have "\<dots> = backend_read_loop b bufsize (seg_chunk s # rest) ?pos ?told ?bf"
    using last(1) pos0 pos_lt by (intro loop_idle) (auto simp: told tmo_in_force_def)
  also have "\<dots> = backend_read_loop b bufsize rest (?pos + int (length (seg_bytes s)))
                      (now_ms (seg_chunk s)) (store_at ?bf (nat ?pos) (seg_bytes s))"
    using last(2,3) pos_lt by (intro loop_chunk) simp_all
  also have "?pos + int (length (seg_bytes s)) = received (segs @ [s]) (length (segs @ [s]))"
    by (simp add: received_def)
  also have "now_ms (seg_chunk s) = last_ms t0 (segs @ [s]) (length (segs @ [s]))"
    by (simp add: last_ms_def)
  also have "store_at ?bf (nat ?pos) (seg_bytes s) = store_at buf 0 (concat (map seg_bytes (segs @ [s])))"
    by (simp add: pos_nat store_at_append)
  finally show ?case .
qed

text \<open>
  C2. Take a call on an open backend whose \<open>ops->read\<close> is set, with a positive buffer
  size, that receives any number of chunks, none of which fills the buffer. Before
  each chunk, and after the last, there may be polls at which the read returns 0; at
  each of them the elapsed time (the \<open>tmo_ms\<close> that the code computes) is measured from
  the clock reading at the last chunk received before it, or from the start of the
  call when no chunk was received yet, and it does not exceed the timeout in force:
  \<open>ack_tmo_ms\<close> while no byte was received, \<open>byte_tmo_ms\<close> afterwards. Then
  (1) the call has not returned at the end of these polls: it is still waiting;
  (2) if at the next poll the read returns 0 and the elapsed time, measured in the
  same way, exceeds the timeout in force, the call returns there: 0 when no chunk was
  received, otherwise the number of bytes of all the chunks, which are in the buffer in
  the order received.
  So a silence is counted from the last chunk only: every chunk resets the timer.
\<close>

theorem backend_read_timeouts:
  assumes "bk_hinst b = Some h" and "ops b = Some tbl" and "ops_read tbl" and "0 < bufsize"
    and chunks: "\<forall>k<length segs.
        (\<forall>q\<in>set (seg_idle (segs ! k)).
            fst (port_read q (bufsize - received segs k)) = 0
          \<and> elapsed_ms (now_ms q) (last_ms t0 segs k) \<le> tmo_in_force b k)
      \<and> port_read (seg_chunk (segs ! k)) (bufsize - received segs k) =
          (int (length (seg_bytes (segs ! k))), seg_bytes (segs ! k))
      \<and> seg_bytes (segs ! k) \<noteq> []
      \<and> received segs (Suc k) < bufsize"
    and quiet: "\<forall>q\<in>set idle.
            fst (port_read q (bufsize - received segs (length segs))) = 0
          \<and> elapsed_ms (now_ms q) (last_ms t0 segs (length segs)) \<le> tmo_in_force b (length segs)"
  shows "modbus_backend_read (Some b) (Some buf) bufsize t0 (script segs @ idle) = None
       \<and> (\<forall>p rest.
            fst (port_read p (bufsize - received segs (length segs))) = 0
          \<and> tmo_in_force b (length segs) < elapsed_ms (now_ms p) (last_ms t0 segs (length segs)) \<longrightarrow>
            modbus_backend_read (Some b) (Some buf) bufsize t0 (script segs @ idle @ p # rest) =
              Some (received segs (length segs), Some (store_at buf 0 (concat (map seg_bytes segs)))))"
proof -
  let ?n = "length segs"
  let ?pos = "received segs ?n"
  let ?told = "last_ms t0 segs ?n"
  let ?bf = "store_at buf 0 (concat (map seg_bytes segs))"
  have nonempty: "\<forall>k<length segs. seg_bytes (segs ! k) \<noteq> []"
    using chunks by simp
  have pos0: "?pos = 0 \<longleftrightarrow> ?n = 0"
    using received_pos [OF nonempty, of ?n] by (cases "?n = 0") (simp_all add: received_def)
  have pos_lt: "?pos < bufsize"
  proof (cases "?n = 0")
    case True
    then show ?thesis using assms(4) by (simp add: received_def)
  next
    case False
    then have "?n - 1 < ?n" by simp
    from chunks [rule_format, OF this] False show ?thesis by simp
  qed
  have tmo: "tmo_in_force b ?n = (if ?pos \<noteq> 0 then byte_tmo_ms b else ack_tmo_ms b)"
    using pos0 by (simp add: tmo_in_force_def)
  have skip: "backend_read_loop b bufsize (script segs @ idle @ rest) 0 t0 buf =
              backend_read_loop b bufsize rest ?pos ?told ?bf" for rest
  proof -
    have "backend_read_loop b bufsize (script segs @ idle @ rest) 0 t0 buf =
          backend_read_loop b bufsize (idle @ rest) ?pos ?told ?bf"
      by (rule loop_script [OF assms(4) chunks])
    also have "\<dots> = backend_read_loop b bufsize rest ?pos ?told ?bf"
      using quiet pos_lt by (intro loop_idle) (simp_all add: tmo)
    finally show ?thesis .
  qed
  have waiting: "modbus_backend_read (Some b) (Some buf) bufsize t0 (script segs @ idle) = None"
    using skip [of "[]"] pos_lt assms(1-4) by (simp add: backend_read_open)
  have expired: "modbus_backend_read (Some b) (Some buf) bufsize t0 (script segs @ idle @ p # rest) =
              Some (?pos, Some ?bf)"
    if p: "fst (port_read p (bufsize - ?pos)) = 0 \<and> tmo_in_force b ?n < elapsed_ms (now_ms p) ?told"
    for p rest
  proof -
    have "backend_read_loop b bufsize (p # rest) ?pos ?told ?bf = Some (?pos, ?bf)"
      using p pos_lt by (intro loop_timeout) (simp_all add: tmo)
    then show ?thesis
      using skip [of "p # rest"] assms(1-4) by (simp add: backend_read_open)
  qed
  from waiting expired show ?thesis by blast
qed

lemmas backend_defs = demo_backend_def poll_data_def poll_idle_def elapsed_ms_def

theorem backend_read_timeouts_witness:
  "modbus_backend_read (Some demo_backend) (Some (\<lambda>i. 0)) 256 1000
       [poll_idle 1100, poll_idle 1300] = None
   \<and> modbus_backend_read (Some demo_backend) (Some (\<lambda>i. 0)) 256 1000
       [poll_idle 1100, poll_idle 1300, poll_idle 1301] = Some (0, Some (\<lambda>i. 0))
   \<and> modbus_backend_read (Some demo_backend) (Some (\<lambda>i. 0)) 256 1000
       [poll_idle 1002, poll_data [0x01, 0x03, 0x00] 1004, poll_idle 1010,
        poll_data [0x6B, 0x00] 1013, poll_idle 1030, poll_idle 1045] = None
   \<and> modbus_backend_read (Some demo_backend) (Some (\<lambda>i. 0)) 256 1000
       [poll_idle 1002, poll_data [0x01, 0x03, 0x00] 1004, poll_idle 1010,
        poll_data [0x6B, 0x00] 1013, poll_idle 1030, poll_idle 1045, poll_idle 1046] =
       Some (5, Some (store_at (\<lambda>i. 0) 0 [0x01, 0x03, 0x00, 0x6B, 0x00]))"
proof -
  have open_backend: "bk_hinst demo_backend = Some 1" "ops demo_backend = Some \<lparr>ops_read = True\<rparr>"
    "ops_read \<lparr>ops_read = True\<rparr>" "(0::int) < 256"
    by (simp_all add: demo_backend_def)
  have ack: "modbus_backend_read (Some demo_backend) (Some (\<lambda>i. 0)) 256 1000
       (script [] @ [poll_idle 1100, poll_idle 1300]) = None
     \<and> modbus_backend_read (Some demo_backend) (Some (\<lambda>i. 0)) 256 1000
       (script [] @ [poll_idle 1100, poll_idle 1300] @ poll_idle 1301 # []) =
         Some (received [] (length ([] :: mb_segment list)),
               Some (store_at (\<lambda>i. 0) 0 (concat (map seg_bytes []))))"
    using backend_read_timeouts [OF open_backend, of "[]" 1000 "[poll_idle 1100, poll_idle 1300]" "\<lambda>i. 0"]
    by (simp add: backend_defs received_def last_ms_def tmo_in_force_def)
  have byte: "modbus_backend_read (Some demo_backend) (Some (\<lambda>i. 0)) 256 1000
       (script demo_segments @ [poll_idle 1030, poll_idle 1045]) = None
     \<and> modbus_backend_read (Some demo_backend) (Some (\<lambda>i. 0)) 256 1000
       (script demo_segments @ [poll_idle 1030, poll_idle 1045] @ poll_idle 1046 # []) =
         Some (received demo_segments (length demo_segments),
               Some (store_at (\<lambda>i. 0) 0 (concat (map seg_bytes demo_segments))))"
    using backend_read_timeouts [OF open_backend, of demo_segments 1000
        "[poll_idle 1030, poll_idle 1045]" "\<lambda>i. 0"]
    by (simp add: backend_defs received_def last_ms_def tmo_in_force_def demo_segments_def
        All_less_Suc numeral_2_eq_2)
  from ack byte show ?thesis
    by (simp add: script_def received_def demo_segments_def store_at_Nil)
qed

subsection \<open>The buffer bound\<close>

lemma store_at_beyond: "k + length bs \<le> i \<Longrightarrow> store_at p k bs i = p i"
  by (simp add: store_at_def)

lemma loop_bound:
  "0 \<le> pos \<Longrightarrow> pos \<le> bufsize \<Longrightarrow>
   \<forall>p\<in>set polls. \<forall>n. fst (port_read p n) \<le> n
      \<and> (0 < fst (port_read p n) \<longrightarrow> int (length (snd (port_read p n))) = fst (port_read p n)) \<Longrightarrow>
   backend_read_loop b bufsize polls pos told bf = Some (r, bf1) \<Longrightarrow>
   r \<le> bufsize \<and> (\<forall>i. nat bufsize \<le> i \<longrightarrow> bf1 i = bf i)"
proof (induction polls arbitrary: pos told bf)
  case Nil
  then show ?case by (auto split: if_splits)
next
  case (Cons p polls)
  show ?case
  proof (cases "pos < bufsize")
    case False
    with Cons.prems show ?thesis by auto
  next
    case True
    obtain len bs where rd: "port_read p (bufsize - pos) = (len, bs)"
      by (cases "port_read p (bufsize - pos)")
    from Cons.prems(3) rd have le: "len \<le> bufsize - pos"
      and ln: "0 < len \<Longrightarrow> int (length bs) = len"
      by (auto dest!: bspec [where x = p] spec [where x = "bufsize - pos"])
    from Cons.prems(3) have rest: "\<forall>p\<in>set polls. \<forall>n. fst (port_read p n) \<le> n
      \<and> (0 < fst (port_read p n) \<longrightarrow> int (length (snd (port_read p n))) = fst (port_read p n))"
      by simp
    consider "len < 0" | "0 < len" | "len = 0" by linarith
    then show ?thesis
    proof cases
      case 1
      with True rd Cons.prems(1,2,4) show ?thesis by auto
    next
      case 2
      with True rd Cons.prems(4)
      have run: "backend_read_loop b bufsize polls (pos + len) (now_ms p)
                   (store_at bf (nat pos) bs) = Some (r, bf1)"
        by simp
      from 2 le Cons.prems(1) have "0 \<le> pos + len" "pos + len \<le> bufsize" by simp_all
      from Cons.IH [OF this rest run]
      have r: "r \<le> bufsize" and keep: "\<forall>i. nat bufsize \<le> i \<longrightarrow> bf1 i = store_at bf (nat pos) bs i"
        by simp_all
      have "\<forall>i. nat bufsize \<le> i \<longrightarrow> store_at bf (nat pos) bs i = bf i"
      proof (intro allI impI)
        fix i assume "nat bufsize \<le> i"
        moreover have "nat pos + length bs \<le> nat bufsize"
          using ln [OF 2] le Cons.prems(1) 2 by linarith
        ultimately show "store_at bf (nat pos) bs i = bf i"
          by (intro store_at_beyond) simp
      qed
      with r keep show ?thesis by simp
    next
      case 3
      show ?thesis
      proof (cases "backend_read_loop b bufsize (p # polls) pos told bf =
                    backend_read_loop b bufsize polls pos told bf")
        case True
        with Cons.prems(4) have "backend_read_loop b bufsize polls pos told bf = Some (r, bf1)"
          by simp
        from Cons.IH [OF Cons.prems(1,2) rest this] show ?thesis .
      next
        case False
        with \<open>pos < bufsize\<close> rd 3 Cons.prems(4) have "r = pos" "bf1 = bf"
          by (auto simp: Let_def split: if_splits)
        with Cons.prems(2) show ?thesis by simp
      qed
    qed
  qed
qed

lemma loop_full:
  "backend_read_loop b bufsize polls bufsize told bf = Some (bufsize, bf)"
  by (cases polls) simp_all

text \<open>
  C10. For a call with a positive buffer size on a port whose read returns at most the
  size it is given and stores as many bytes as it returns: the value returned is at
  most \<open>bufsize\<close>, and the buffer is unchanged from offset \<open>bufsize\<close> on. In any state of
  the loop, a read that delivers exactly the free space \<open>bufsize - pos\<close> makes the call
  return \<open>bufsize\<close> at once: no further poll is made, whatever the clock says.
\<close>

theorem backend_read_bounded:
  assumes size: "0 < bufsize"
    and port: "\<forall>p\<in>set polls. \<forall>n. fst (port_read p n) \<le> n
      \<and> (0 < fst (port_read p n) \<longrightarrow> int (length (snd (port_read p n))) = fst (port_read p n))"
    and run: "modbus_backend_read backend (Some bf) bufsize t0 polls = Some (r, buf1)"
  shows "r \<le> bufsize
       \<and> (\<exists>bf1. buf1 = Some bf1 \<and> (\<forall>i. nat bufsize \<le> i \<longrightarrow> bf1 i = bf i))
       \<and> (\<forall>b pos told bf' p rest bs.
            pos < bufsize \<and> port_read p (bufsize - pos) = (bufsize - pos, bs) \<longrightarrow>
            backend_read_loop b bufsize (p # rest) pos told bf' =
              Some (bufsize, store_at bf' (nat pos) bs))"
proof (intro conjI allI impI)
  show "r \<le> bufsize" 
    using assms 
    by (auto simp: modbus_backend_read_def split: option.splits if_splits
        dest: loop_bound [rotated 3])
  show "\<exists>bf1. buf1 = Some bf1 \<and> (\<forall>i. nat bufsize \<le> i \<longrightarrow> bf1 i = bf i)"
    using assms 
    by (auto simp: modbus_backend_read_def split: option.splits if_splits
        dest: loop_bound [rotated 3])
next
  fix b pos told bf' and p :: mb_poll and rest :: "mb_poll list" and bs
  assume "pos < bufsize \<and> port_read p (bufsize - pos) = (bufsize - pos, bs)"
  then show "backend_read_loop b bufsize (p # rest) pos told bf' =
              Some (bufsize, store_at bf' (nat pos) bs)"
    by (simp add: loop_full)
qed


lemma poll_data_contract:
  "fst (port_read (poll_data bs t) n) \<le> n
   \<and> (0 < fst (port_read (poll_data bs t) n) \<longrightarrow>
        int (length (snd (port_read (poll_data bs t) n))) = fst (port_read (poll_data bs t) n))"
  by (auto simp: poll_data_def min_def)

theorem backend_read_bounded_witness:
  "modbus_backend_read (Some demo_backend) (Some (\<lambda>i. 0)) 4 1000
       [poll_idle 1002, poll_data [0x01, 0x03, 0x00, 0x6B, 0x00] 1004] =
     Some (4, Some (store_at (\<lambda>i. 0) 0 [0x01, 0x03, 0x00, 0x6B]))
   \<and> fst (the (modbus_backend_read (Some demo_backend) (Some (\<lambda>i. 0)) 4 1000
         [poll_idle 1002, poll_data [0x01, 0x03, 0x00, 0x6B, 0x00] 1004])) \<le> 4"
proof -
  have run: "modbus_backend_read (Some demo_backend) (Some (\<lambda>i. 0)) 4 1000
       [poll_idle 1002, poll_data [0x01, 0x03, 0x00, 0x6B, 0x00] 1004] =
     Some (4, Some (store_at (\<lambda>i. 0) 0 [0x01, 0x03, 0x00, 0x6B]))"
    by (simp add: modbus_backend_read_def demo_backend_def poll_data_def poll_idle_def
        elapsed_ms_def)
  have port: "\<forall>p\<in>set [poll_idle 1002, poll_data [0x01, 0x03, 0x00, 0x6B, 0x00] 1004].
      \<forall>n. fst (port_read p n) \<le> n
      \<and> (0 < fst (port_read p n) \<longrightarrow> int (length (snd (port_read p n))) = fst (port_read p n))"
    using poll_data_contract by (simp add: poll_idle_def)
  have size: "(0::int) < 4" by simp
  have "(4::int) \<le> 4"
    by (rule backend_read_bounded [OF size port run, THEN conjunct1])
  with run show ?thesis by simp
qed

end
